theory Spec2Isabelle
  imports Complex_Main
begin

section \<open>Strings\<close>

text \<open>
  A JavaScript string is modelled as a \<^typ>\<open>string\<close>, one \<^typ>\<open>char\<close> per code unit, which
  covers the texts whose code units are below 256. White space is the set that \<^verbatim>\<open>trim\<close>
  and the regular expression class \<^verbatim>\<open>\s\<close> share among these (tab, line feed, vertical tab,
  form feed, carriage return, space, no-break space).

  Case mapping is the platform's. On the ASCII letters it is written out below.
  \<^verbatim>\<open>toLowerCase\<close> is applied by the source only to search the lowered text for ASCII words
  or to compare it with one; the platform lowers a character outside ASCII to characters
  outside ASCII, one for one on the texts modelled, so these tests come out the same when
  such a character is left as it is, as \<open>toLowerCase\<close> below leaves it. The result of
  \<^verbatim>\<open>toUpperCase\<close>, however, becomes the token symbol, so the image of a character outside
  ASCII is not fixed here: it is the parameter \<open>upperOther\<close>, the platform's upper-case
  mapping of such a character (one character may give several, as \<^verbatim>\<open>SS\<close> for the sharp s).
\<close>

definition is_space :: "char \<Rightarrow> bool" where
  "is_space c = (c \<in> set [CHR 0x09, CHR 0x0A, CHR 0x0B, CHR 0x0C, CHR 0x0D, CHR 0x20, CHR 0xA0])"

definition upper_letters :: string where
  "upper_letters = ''ABCDEFGHIJKLMNOPQRSTUVWXYZ''"

definition lower_letters :: string where
  "lower_letters = ''abcdefghijklmnopqrstuvwxyz''"

definition lower_char :: "char \<Rightarrow> char" where
  "lower_char c = (case map_of (zip upper_letters lower_letters) c of Some d \<Rightarrow> d | None \<Rightarrow> c)"

definition upper_char :: "char \<Rightarrow> char" where
  "upper_char c = (case map_of (zip lower_letters upper_letters) c of Some d \<Rightarrow> d | None \<Rightarrow> c)"

definition is_ascii :: "char \<Rightarrow> bool" where
  "is_ascii c = (\<not> digit7 c)"

definition toLowerCase :: "string \<Rightarrow> string" where
  "toLowerCase s = map lower_char s"

definition toUpperCase :: "(char \<Rightarrow> string) \<Rightarrow> string \<Rightarrow> string" where
  "toUpperCase upperOther s =
     concat (map (\<lambda>c. if is_ascii c then [upper_char c] else upperOther c) s)"

text \<open>
  The canonical form under which a regular expression with the flag \<^verbatim>\<open>i\<close> compares
  characters: the upper-case letter of an ASCII letter. Every literal of the source's
  patterns is ASCII, and ECMAScript never canonicalizes a character outside ASCII to an
  ASCII one, so such a character of the input, left as it is, matches none of them.
\<close>

definition canonicalize :: "string \<Rightarrow> string" where
  "canonicalize s = map upper_char s"

definition trim :: "string \<Rightarrow> string" where
  "trim s = rev (dropWhile is_space (rev (dropWhile is_space s)))"

definition startsWith :: "string \<Rightarrow> string \<Rightarrow> bool" where
  "startsWith s pat = (take (length pat) s = pat)"

text \<open>\<^verbatim>\<open>s.includes(pat)\<close>: \<open>pat\<close> occurs in \<open>s\<close> as a contiguous substring.\<close>

fun str_includes :: "string \<Rightarrow> string \<Rightarrow> bool" where
  "str_includes [] pat = (pat = [])"
| "str_includes (c # cs) pat = (startsWith (c # cs) pat \<or> str_includes cs pat)"

text \<open>\<^verbatim>\<open>s.substring(0, n)\<close> for a literal \<open>n\<close>.\<close>

definition substring0 :: "string \<Rightarrow> nat \<Rightarrow> string" where
  "substring0 s n = take n s"

section \<open>Regular expressions\<close>

text \<open>
  The source's regular expressions use literals, alternations of literals, quantified
  character classes, capture groups, one optional group, \<^verbatim>\<open>\b\<close> and \<^verbatim>\<open>$\<close>. They are
  written as node lists and run by a backtracking matcher that tries the alternatives in
  ECMAScript's order: a greedy quantifier the longest run first, a lazy one the shortest
  first, an alternation left to right, an optional group before its omission.
\<close>

datatype cclass =
    AnyChar                  \<comment> \<open>\<^verbatim>\<open>[\s\S]\<close>\<close>
  | Dot                      \<comment> \<open>\<^verbatim>\<open>.\<close>: any character but a line terminator\<close>
  | Space                    \<comment> \<open>\<^verbatim>\<open>\s\<close>\<close>
  | NoneOf "char list"       \<comment> \<open>\<^verbatim>\<open>[^...]\<close>\<close>

datatype node =
    Lit string
  | Alt "string list"
  | Star cclass
  | Plus cclass
  | StarLazy cclass
  | PlusLazy cclass
  | GroupOpen nat
  | GroupClose nat
  | Opt "node list"          \<comment> \<open>\<^verbatim>\<open>(?: ... )?\<close>\<close>
  | WordBoundary             \<comment> \<open>\<^verbatim>\<open>\b\<close>\<close>
  | EndOfInput               \<comment> \<open>\<^verbatim>\<open>$\<close> without the multiline flag\<close>

type_synonym captures = "nat \<Rightarrow> (nat \<times> nat) option"

fun in_class :: "cclass \<Rightarrow> char \<Rightarrow> bool" where
  "in_class AnyChar c = True"
| "in_class Dot c = (c \<noteq> CHR 0x0A \<and> c \<noteq> CHR 0x0D)"
| "in_class Space c = is_space c"
| "in_class (NoneOf cs) c = (c \<notin> set cs)"

text \<open>The length of the longest run of class characters from position \<open>i\<close>.\<close>

definition run :: "cclass \<Rightarrow> string \<Rightarrow> nat \<Rightarrow> nat" where
  "run k w i = length (takeWhile (in_class k) (drop i w))"

text \<open>A literal at position \<open>i\<close>; under the flag \<^verbatim>\<open>i\<close> both sides are compared in canonical form.\<close>

definition lit_at :: "bool \<Rightarrow> string \<Rightarrow> string \<Rightarrow> nat \<Rightarrow> bool" where
  "lit_at icase s w i =
     (let t = take (length s) (drop i w)
      in length t = length s \<and> (if icase then canonicalize t = canonicalize s else t = s))"

definition is_word_char :: "char \<Rightarrow> bool" where
  "is_word_char c = (c \<in> set (upper_letters @ lower_letters @ ''0123456789_''))"

definition word_at :: "string \<Rightarrow> nat \<Rightarrow> bool" where
  "word_at w i = (i < length w \<and> is_word_char (w ! i))"

definition at_word_boundary :: "string \<Rightarrow> nat \<Rightarrow> bool" where
  "at_word_boundary w i = ((0 < i \<and> word_at w (i - 1)) \<noteq> word_at w i)"

fun node_size :: "node \<Rightarrow> nat" where
  "node_size (Opt sub) = Suc (sum_list (map node_size sub))"
| "node_size n = 1"

definition close_group :: "captures \<Rightarrow> nat \<Rightarrow> nat \<Rightarrow> captures" where
  "close_group c n i = (case c n of None \<Rightarrow> c | Some (s, e) \<Rightarrow> c(n \<mapsto> (s, i)))"

text \<open>
  \<open>matchHere icase rs w i c\<close> matches the nodes \<open>rs\<close> against \<open>w\<close> from position \<open>i\<close> and
  returns the end position and the captures of the first successful alternative;
  \<open>tryEach\<close> runs the rest of the pattern from each candidate position in turn.
\<close>

function matchHere :: "bool \<Rightarrow> node list \<Rightarrow> string \<Rightarrow> nat \<Rightarrow> captures \<Rightarrow> (nat \<times> captures) option"
  and tryEach :: "bool \<Rightarrow> node list \<Rightarrow> string \<Rightarrow> nat list \<Rightarrow> captures \<Rightarrow> (nat \<times> captures) option"
where
  "matchHere icase [] w i c = Some (i, c)"
| "matchHere icase (Lit s # rs) w i c =
     (if lit_at icase s w i then matchHere icase rs w (i + length s) c else None)"
| "matchHere icase (Alt ss # rs) w i c =
     tryEach icase rs w (map (\<lambda>s. i + length s) (filter (\<lambda>s. lit_at icase s w i) ss)) c"
| "matchHere icase (Star k # rs) w i c =
     tryEach icase rs w (rev (map (\<lambda>n. i + n) [0..<Suc (run k w i)])) c"
| "matchHere icase (Plus k # rs) w i c =
     tryEach icase rs w (rev (map (\<lambda>n. i + n) [1..<Suc (run k w i)])) c"
| "matchHere icase (StarLazy k # rs) w i c =
     tryEach icase rs w (map (\<lambda>n. i + n) [0..<Suc (run k w i)]) c"
| "matchHere icase (PlusLazy k # rs) w i c =
     tryEach icase rs w (map (\<lambda>n. i + n) [1..<Suc (run k w i)]) c"
| "matchHere icase (GroupOpen n # rs) w i c = matchHere icase rs w i (c(n \<mapsto> (i, i)))"
| "matchHere icase (GroupClose n # rs) w i c = matchHere icase rs w i (close_group c n i)"
| "matchHere icase (Opt sub # rs) w i c =
     (case matchHere icase (sub @ rs) w i c of
        Some r \<Rightarrow> Some r
      | None \<Rightarrow> matchHere icase rs w i c)"
| "matchHere icase (WordBoundary # rs) w i c =
     (if at_word_boundary w i then matchHere icase rs w i c else None)"
| "matchHere icase (EndOfInput # rs) w i c =
     (if i = length w then matchHere icase rs w i c else None)"
| "tryEach icase rs w [] c = None"
| "tryEach icase rs w (j # js) c =
     (case matchHere icase rs w j c of
        Some r \<Rightarrow> Some r
      | None \<Rightarrow> tryEach icase rs w js c)"
  by pat_completeness auto
termination
  by (relation "inv_image (less_than <*lex*> less_than)
        (\<lambda>x. case x of
           Inl (icase, rs, w, i, c) \<Rightarrow> (sum_list (map node_size rs), 0)
         | Inr (icase, rs, w, js, c) \<Rightarrow> (sum_list (map node_size rs), Suc (length js)))")
     auto

record regex =
  nodes :: "node list"
  ignoreCase :: bool

text \<open>The leftmost match among the start positions \<open>starts\<close>: start, end and captures.\<close>

fun firstMatch :: "regex \<Rightarrow> string \<Rightarrow> nat list \<Rightarrow> (nat \<times> nat \<times> captures) option" where
  "firstMatch re w [] = None"
| "firstMatch re w (i # starts) =
     (case matchHere (ignoreCase re) (nodes re) w i Map.empty of
        Some (e, c) \<Rightarrow> Some (i, e, c)
      | None \<Rightarrow> firstMatch re w starts)"

text \<open>\<^verbatim>\<open>w.match(re)\<close> for a regular expression without the global flag.\<close>

definition str_match :: "string \<Rightarrow> regex \<Rightarrow> (nat \<times> nat \<times> captures) option" where
  "str_match w re = firstMatch re w [0..<Suc (length w)]"

text \<open>Capture group \<open>n\<close> of a match: \<open>None\<close> is \<^verbatim>\<open>undefined\<close> (the group took no part).\<close>

definition group :: "string \<Rightarrow> (nat \<times> nat \<times> captures) \<Rightarrow> nat \<Rightarrow> string option" where
  "group w m n =
     (case snd (snd m) n of None \<Rightarrow> None | Some (s, e) \<Rightarrow> Some (take (e - s) (drop s w)))"

lemma matchHere_advances:
  "matchHere icase rs w i c = Some (e, c') \<Longrightarrow> i \<le> e"
  "tryEach icase rs w js c = Some (e, c') \<Longrightarrow> \<exists>j\<in>set js. j \<le> e"
  by (induction icase rs w i c and icase rs w js c arbitrary: e c' and e c'
        rule: matchHere_tryEach.induct)
     (fastforce split: if_splits option.splits)+

lemma firstMatch_Some:
  "firstMatch re w starts = Some (i, e, c) \<Longrightarrow> i \<in> set starts \<and> i \<le> e"
  by (induction starts) (auto split: option.splits dest: matchHere_advances(1))

text \<open>
  \<^verbatim>\<open>w.replace(re, rep)\<close> for a regular expression with the global flag and a plain
  replacement text, from position \<open>p\<close> on: every match, left to right, none overlapping;
  after an empty match the search moves one character on.
\<close>

function replaceFrom :: "regex \<Rightarrow> string \<Rightarrow> string \<Rightarrow> nat \<Rightarrow> string" where
  "replaceFrom re rep w p =
     (case firstMatch re w [p..<Suc (length w)] of
        None \<Rightarrow> drop p w
      | Some (i, e, c) \<Rightarrow>
          take (i - p) (drop p w) @ rep @
          (if e = i then take 1 (drop i w) @ replaceFrom re rep w (Suc i)
           else replaceFrom re rep w e))"
  by pat_completeness auto
termination
  by (relation "measure (\<lambda>(re, rep, w, p). Suc (length w) - p)")
     (auto dest!: firstMatch_Some)

definition str_replace :: "string \<Rightarrow> regex \<Rightarrow> string \<Rightarrow> string" where
  "str_replace w re rep = replaceFrom re rep w 0"

text \<open>\<^verbatim>\<open>s.split(/\s+/)\<close>: the pieces between the maximal runs of white space.\<close>

function splitWs :: "string \<Rightarrow> string list" where
  "splitWs s =
     (case dropWhile (\<lambda>c. \<not> is_space c) s of
        [] \<Rightarrow> [s]
      | c # rest \<Rightarrow> takeWhile (\<lambda>c. \<not> is_space c) s # splitWs (dropWhile is_space rest))"
  by pat_completeness auto
termination
proof (relation "measure length", goal_cases)
  case 1
  show ?case by simp
next
  case (2 s c rest)
  have "length (dropWhile is_space rest) \<le> length rest"
    by (rule length_dropWhile_le)
  moreover have "length (dropWhile (\<lambda>c. \<not> is_space c) s) \<le> length s"
    by (rule length_dropWhile_le)
  ultimately show ?case using 2 by simp
qed

declare replaceFrom.simps [simp del] splitWs.simps [simp del]

section \<open>DefaultingEngine: total supply from the token name\<close>

text \<open>\<^verbatim>\<open>generateSmartTotalSupply\<close>: a cascade of keyword tests on the lowercased name.\<close>

definition generateSmartTotalSupply :: "string \<Rightarrow> string" where
  "generateSmartTotalSupply tokenName =
     (let name = toLowerCase tokenName in
      if str_includes name ''game'' \<or> str_includes name ''gaming'' \<or> str_includes name ''play'' \<or>
         str_includes name ''quest'' \<or> str_includes name ''rpg'' \<or> str_includes name ''nft''
      then ''1000000000''
      else if str_includes name ''meme'' \<or> str_includes name ''pepe'' \<or> str_includes name ''doge'' \<or>
         str_includes name ''shib'' \<or> str_includes name ''moon'' \<or> str_includes name ''rocket''
      then ''1000000000000''
      else if str_includes name ''govern'' \<or> str_includes name ''vote'' \<or> str_includes name ''dao'' \<or>
         str_includes name ''council'' \<or> str_includes name ''proposal''
      then ''10000000''
      else if str_includes name ''utility'' \<or> str_includes name ''app'' \<or> str_includes name ''platform'' \<or>
         str_includes name ''service'' \<or> str_includes name ''network''
      then ''100000000''
      else if str_includes name ''stable'' \<or> str_includes name ''usd'' \<or> str_includes name ''dollar'' \<or>
         str_includes name ''peg''
      then ''1000000''
      else ''1000000'')"

section \<open>DefaultingEngine: symbol from the token name\<close>

text \<open>\<^verbatim>\<open>/\b(token|coin|currency|crypto|digital|blockchain)\b/gi\<close>\<close>

definition genericWords :: regex where
  "genericWords =
     \<lparr>nodes = [WordBoundary, GroupOpen 1,
               Alt [''token'', ''coin'', ''currency'', ''crypto'', ''digital'', ''blockchain''],
               GroupClose 1, WordBoundary],
      ignoreCase = True\<rparr>"

definition cleanName :: "string \<Rightarrow> string" where
  "cleanName tokenName = trim (str_replace tokenName genericWords [])"

definition generateTokenSymbol :: "(char \<Rightarrow> string) \<Rightarrow> string \<Rightarrow> string" where
  "generateTokenSymbol upperOther tokenName =
     (let words = filter (\<lambda>word. length word > 0) (splitWs (cleanName tokenName)) in
      if length words = 0 then ''TKN''
      else if length words = 1 then
        (let word = toUpperCase upperOther (words ! 0)
         in if length word > 4 then substring0 word 4 else word)
      else if length words = 2 then
        (let first = toUpperCase upperOther (words ! 0);
             second = toUpperCase upperOther (words ! 1)
         in substring0 (substring0 first 2 @ substring0 second 2) 4)
      else
        (let acronym =
               substring0 (concat (map (\<lambda>word. toUpperCase upperOther (take 1 word)) words)) 4
         in if length acronym < 3 then acronym @ ''N'' else acronym))"

section \<open>JavaScript values\<close>

text \<open>
  The oracle's JSON is untyped at run time, so the parse boundary works on JavaScript
  values. A number is the rational value of its literal. An array keeps, beside its
  elements, the named properties assigned to it. \<open>JUndefined\<close> is what reading an absent
  property gives.
\<close>

datatype jsval =
    JUndefined
  | JNull
  | JBool bool
  | JNum rat
  | JStr string
  | JArr "jsval list" "(string \<times> jsval) list"
  | JObj "(string \<times> jsval) list"

datatype js_error = TypeError | SyntaxError | RangeError | Error string

definition andThen :: "js_error + 'a \<Rightarrow> ('a \<Rightarrow> js_error + 'b) \<Rightarrow> js_error + 'b" where
  "andThen m f = (case m of Inl e \<Rightarrow> Inl e | Inr x \<Rightarrow> f x)"

fun truthy :: "jsval \<Rightarrow> bool" where
  "truthy JUndefined = False"
| "truthy JNull = False"
| "truthy (JBool b) = b"
| "truthy (JNum n) = (n \<noteq> 0)"
| "truthy (JStr s) = (s \<noteq> [])"
| "truthy (JArr xs ps) = True"
| "truthy (JObj ps) = True"

text \<open>
  \<^verbatim>\<open>v.k\<close> for the property names the source reads (none of them is inherited or built
  in): reading from \<^verbatim>\<open>undefined\<close> or \<^verbatim>\<open>null\<close> throws, a primitive has no such property.
\<close>

definition field :: "(string \<times> jsval) list \<Rightarrow> string \<Rightarrow> jsval" where
  "field ps k = (case map_of ps k of None \<Rightarrow> JUndefined | Some v \<Rightarrow> v)"

fun get_prop :: "jsval \<Rightarrow> string \<Rightarrow> js_error + jsval" where
  "get_prop JUndefined k = Inl TypeError"
| "get_prop JNull k = Inl TypeError"
| "get_prop (JObj ps) k = Inr (field ps k)"
| "get_prop (JArr xs ps) k = Inr (field ps k)"
| "get_prop v k = Inr JUndefined"

fun assign :: "(string \<times> jsval) list \<Rightarrow> string \<Rightarrow> jsval \<Rightarrow> (string \<times> jsval) list" where
  "assign [] k v = [(k, v)]"
| "assign ((k', v') # ps) k v = (if k' = k then (k, v) # ps else (k', v') # assign ps k v)"

text \<open>\<^verbatim>\<open>v.k = x\<close> in strict mode (an ES module): only an object takes the property.\<close>

fun set_prop :: "jsval \<Rightarrow> string \<Rightarrow> jsval \<Rightarrow> js_error + jsval" where
  "set_prop (JObj ps) k x = Inr (JObj (assign ps k x))"
| "set_prop (JArr xs ps) k x = Inr (JArr xs (assign ps k x))"
| "set_prop v k x = Inl TypeError"

text \<open>Calling a String method on a value: only a string has it.\<close>

fun asString :: "jsval \<Rightarrow> js_error + string" where
  "asString (JStr s) = Inr s"
| "asString v = Inl TypeError"

section \<open>IntentExtractor: the parse boundary\<close>

record ai_result =
  response :: jsval
  action :: jsval
  requiresConfirmation :: jsval

text \<open>The regular expression that finds the fenced block, with a line feed after the
  opening fence and before the closing one.\<close>

definition jsonFence :: regex where
  "jsonFence =
     \<lparr>nodes = [Lit ''```json\<newline>'', GroupOpen 1, StarLazy AnyChar, GroupClose 1,
               Lit ''\<newline>```''],
      ignoreCase = False\<rparr>"

text \<open>\<^verbatim>\<open>parsedJson.action?.action\<close>\<close>

definition actionKind :: "jsval \<Rightarrow> js_error + jsval" where
  "actionKind parsedJson =
     andThen (get_prop parsedJson ''action'') (\<lambda>a.
       if a = JUndefined \<or> a = JNull then Inr JUndefined else get_prop a ''action'')"

text \<open>The defaults of a \<^verbatim>\<open>create_token\<close> action, applied to its details in place.\<close>

definition tokenDefaults :: "(char \<Rightarrow> string) \<Rightarrow> jsval \<Rightarrow> js_error + jsval" where
  "tokenDefaults upperOther tokenDetails =
     andThen (get_prop tokenDetails ''decimals'') (\<lambda>decimals.
     andThen (if \<not> truthy decimals then set_prop tokenDetails ''decimals'' (JStr ''18'')
              else Inr tokenDetails) (\<lambda>d1.
     andThen (get_prop d1 ''totalSupply'') (\<lambda>totalSupply.
     andThen (if \<not> truthy totalSupply then
                andThen (get_prop d1 ''name'') (\<lambda>name.
                andThen (asString (if truthy name then name else JStr [])) (\<lambda>tokenName.
                set_prop d1 ''totalSupply'' (JStr (generateSmartTotalSupply tokenName))))
              else Inr d1) (\<lambda>d2.
     andThen (get_prop d2 ''symbol'') (\<lambda>symbol.
     andThen (get_prop d2 ''name'') (\<lambda>name.
       if \<not> truthy symbol \<and> truthy name then
         andThen (asString name) (\<lambda>tokenName.
         set_prop d2 ''symbol'' (JStr (generateTokenSymbol upperOther tokenName)))
       else Inr d2))))))"

definition stepCreateToken :: "(char \<Rightarrow> string) \<Rightarrow> jsval \<Rightarrow> js_error + jsval" where
  "stepCreateToken upperOther parsedJson =
     andThen (actionKind parsedJson) (\<lambda>kind.
       if kind = JStr ''create_token'' then
         andThen (get_prop parsedJson ''action'') (\<lambda>act.
         andThen (get_prop act ''details'') (\<lambda>tokenDetails.
         andThen (tokenDefaults upperOther tokenDetails) (\<lambda>tokenDetails'.
         andThen (set_prop act ''details'' tokenDetails') (\<lambda>act'.
         set_prop parsedJson ''action'' act'))))
       else Inr parsedJson)"

text \<open>The validation of a \<^verbatim>\<open>send_transaction\<close> action, applied to the action in place.\<close>

definition validateSend :: "jsval \<Rightarrow> js_error + jsval" where
  "validateSend act =
     andThen (get_prop act ''details'') (\<lambda>txDetails.
     andThen (get_prop txDetails ''token'') (\<lambda>token.
     andThen (if \<not> truthy token \<or> token = JStr [] then set_prop txDetails ''token'' (JStr ''BNB'')
              else Inr txDetails) (\<lambda>txDetails'.
     andThen (get_prop txDetails' ''recipient'') (\<lambda>recipient.
     andThen (get_prop txDetails' ''amount'') (\<lambda>amount.
       (let missingFields =
              (if \<not> truthy recipient then [''recipient''] else []) @
              (if \<not> truthy amount then [''amount''] else [])
        in andThen (set_prop act ''details'' txDetails') (\<lambda>a1.
           andThen (set_prop a1 ''missingFields'' (JArr (map JStr missingFields) [])) (\<lambda>a2.
           set_prop a2 ''isComplete'' (JBool (length missingFields = 0)))))))))) "

definition stepSendTransaction :: "jsval \<Rightarrow> js_error + jsval" where
  "stepSendTransaction parsedJson =
     andThen (actionKind parsedJson) (\<lambda>kind.
       if kind = JStr ''send_transaction'' then
         andThen (get_prop parsedJson ''action'') (\<lambda>act.
         andThen (validateSend act) (\<lambda>act'.
         set_prop parsedJson ''action'' act'))
       else Inr parsedJson)"

definition stepUploadNft :: "jsval \<Rightarrow> js_error + jsval" where
  "stepUploadNft parsedJson =
     andThen (actionKind parsedJson) (\<lambda>kind.
       if kind = JStr ''upload_nft'' then
         andThen (get_prop parsedJson ''action'') (\<lambda>act.
         andThen (set_prop act ''isComplete'' (JBool True)) (\<lambda>act'.
         andThen (set_prop parsedJson ''action'' act') (\<lambda>p.
         set_prop p ''requiresConfirmation'' (JBool True))))
       else Inr parsedJson)"

definition plainReply :: "string \<Rightarrow> ai_result" where
  "plainReply aiResponse =
     \<lparr>response = JStr aiResponse, action = JNull, requiresConfirmation = JBool False\<rparr>"

text \<open>
  The body of the \<^verbatim>\<open>try\<close> block of \<^verbatim>\<open>parseAIResponse\<close>. \<open>JSON_parse\<close> is the platform's
  \<^verbatim>\<open>JSON.parse\<close>: the value of a JSON text, or the SyntaxError it throws; \<open>upperOther\<close>
  is the platform's upper-case mapping outside ASCII.
\<close>

definition parseBody ::
  "(char \<Rightarrow> string) \<Rightarrow> (string \<Rightarrow> js_error + jsval) \<Rightarrow> string \<Rightarrow> js_error + ai_result" where
  "parseBody upperOther JSON_parse aiResponse =
     (case str_match aiResponse jsonFence of
        None \<Rightarrow> Inr (plainReply aiResponse)
      | Some jsonMatch \<Rightarrow>
          andThen (case group aiResponse jsonMatch 1 of
                     None \<Rightarrow> Inl SyntaxError
                   | Some text \<Rightarrow> JSON_parse text) (\<lambda>parsedJson.
          andThen (stepCreateToken upperOther parsedJson) (\<lambda>p1.
          andThen (stepSendTransaction p1) (\<lambda>p2.
          andThen (stepUploadNft p2) (\<lambda>p3.
          andThen (get_prop p3 ''response'') (\<lambda>r.
          andThen (get_prop p3 ''action'') (\<lambda>a.
          andThen (get_prop p3 ''requiresConfirmation'') (\<lambda>rc.
            Inr \<lparr>response = (if truthy r then r else JStr aiResponse),
                 action = (if truthy a then a else JNull),
                 requiresConfirmation = (if truthy rc then rc else JBool False)\<rparr>))))))))"

text \<open>\<^verbatim>\<open>parseAIResponse\<close>: the \<^verbatim>\<open>catch\<close> turns every exception of the body into the plain reply.\<close>

definition parseAIResponse ::
  "(char \<Rightarrow> string) \<Rightarrow> (string \<Rightarrow> js_error + jsval) \<Rightarrow> string \<Rightarrow> ai_result" where
  "parseAIResponse upperOther JSON_parse aiResponse =
     (case parseBody upperOther JSON_parse aiResponse of
        Inr result \<Rightarrow> result
      | Inl error \<Rightarrow> plainReply aiResponse)"

definition apology :: ai_result where
  "apology =
     \<lparr>response = JStr ''I apologize, but I encountered an error processing your request. Please try again.'',
      action = JNull, requiresConfirmation = JBool False\<rparr>"

text \<open>
  \<^verbatim>\<open>processUserInput\<close>. \<open>generateContent\<close> is the oracle call on the prompt built from
  the input and the conversation context: the text of its response, or what it throws.
\<close>

definition processUserInput ::
  "(char \<Rightarrow> string) \<Rightarrow> (string \<Rightarrow> js_error + jsval) \<Rightarrow> (string \<Rightarrow> 'ctx \<Rightarrow> js_error + string) \<Rightarrow> string \<Rightarrow> 'ctx \<Rightarrow> ai_result"
where
  "processUserInput upperOther JSON_parse generateContent input conversationContext =
     (case generateContent input conversationContext of
        Inr text \<Rightarrow> parseAIResponse upperOther JSON_parse text
      | Inl error \<Rightarrow> apology)"

section \<open>Conversation store\<close>

text \<open>
  The session state is the conversation store (messages, pending action, processing
  flag) together with the chat component's own state (input box, uploaded image, the
  waiting-for-details flag, the details kept for after the upload). Two further fields
  only record what happened: \<open>ticks\<close> counts the readings of the clock taken so far, and
  \<open>trace\<close> lists the calls made to the collaborators.
  An emoji of a source literal is written as a bracketed name.
\<close>

text \<open>
  \<^verbatim>\<open>n.toString()\<close> for an integer \<open>n\<close> below \<open>10\<^sup>2\<^sup>1\<close> in magnitude, as the readings of
  the clock are: the decimal digits, after a minus sign for a negative number.
\<close>

definition digits :: string where
  "digits = ''0123456789''"

function decimal :: "int \<Rightarrow> string" where
  "decimal n =
     (if n < 10 then [digits ! nat n] else decimal (n div 10) @ [digits ! nat (n mod 10)])"
  by pat_completeness auto
termination
  by (relation "measure nat") (simp_all add: int_div_less_self)

declare decimal.simps [simp del]

definition numberText :: "int \<Rightarrow> string" where
  "numberText n = (if n < 0 then ''-'' @ decimal (- n) else decimal n)"

datatype author = User | Assistant

datatype date = Date int | InvalidDate

record ConversationMessage =
  msg_id :: string
  msg_type :: author
  content :: jsval
  timestamp :: date
  msg_action :: jsval
  msg_requiresConfirmation :: jsval
  showUpload :: "bool option"
  msg_uploadedImage :: "(string \<times> string) option"

record PendingAction =
  pa_action :: jsval
  messageId :: string
  isWaitingForConfirmation :: bool

record TransactionResult =
  success :: bool
  hash :: "string option"
  error :: "string option"
  contractAddress :: "string option"
  tokenId :: "string option"
  explorerUrl :: "string option"

record Wallet =
  address :: string
  privateKey :: string

datatype event =
    OracleCall string
  | ExecutorCall
  | Submission string jsval

text \<open>
  The collaborators of one turn: the platform's upper-case mapping outside ASCII and its
  JSON parser, the oracle, the confirmation
  composer, the wallet store and key decryption, the three submission operations, the
  clock and the random source, and the platform's conversion of a value that is not a
  string to text. A collaborator that can throw returns a sum. \<open>dateNow env n\<close> is the
  time, in milliseconds since the epoch, that reading number \<open>n\<close> of the clock gives
  (\<^verbatim>\<open>Date.now()\<close> and \<^verbatim>\<open>new Date()\<close> both read it), and \<open>randomSuffix env n\<close> is the text
  \<^verbatim>\<open>Math.random().toString(36).substr(2, 9)\<close> drawn beside that reading.
\<close>

record env =
  caseMapping :: "char \<Rightarrow> string"
  parseJSON :: "string \<Rightarrow> js_error + jsval"
  askOracle :: "string \<Rightarrow> ConversationMessage list \<Rightarrow> js_error + string"
  generateConfirmationMessage :: "jsval \<Rightarrow> js_error + string"
  wallet :: "Wallet option"
  decryptPrivateKey :: "string \<Rightarrow> js_error + string"
  createToken :: "jsval \<Rightarrow> string \<Rightarrow> js_error + TransactionResult"
  mintNFT :: "jsval \<Rightarrow> string \<Rightarrow> string \<Rightarrow> js_error + TransactionResult"
  sendTransaction :: "jsval \<Rightarrow> string \<Rightarrow> js_error + TransactionResult"
  dateNow :: "nat \<Rightarrow> int"
  randomSuffix :: "nat \<Rightarrow> string"
  stringOf :: "jsval \<Rightarrow> string"

record session =
  messages :: "ConversationMessage list"
  pendingAction :: "PendingAction option"
  isProcessing :: bool
  inputValue :: string
  uploadedImage :: "(string \<times> string) option"
  isWaitingForNFTDetails :: bool
  pendingNFTDetails :: "(jsval \<times> jsval) option"
  ticks :: nat
  trace :: "event list"

text \<open>
  A message as the callers of \<^verbatim>\<open>addMessage\<close> give it: without identifier and time.
  \<^verbatim>\<open>addMessage\<close> reads the clock twice, for the identifier and then for the time.
\<close>

record draft =
  d_type :: author
  d_content :: jsval
  d_action :: jsval
  d_requiresConfirmation :: jsval
  d_showUpload :: "bool option"
  d_uploadedImage :: "(string \<times> string) option"

definition aiText :: "string \<Rightarrow> draft" where
  "aiText c =
     \<lparr>d_type = Assistant, d_content = JStr c, d_action = JUndefined,
      d_requiresConfirmation = JUndefined, d_showUpload = None, d_uploadedImage = None\<rparr>"

definition userText :: "string \<Rightarrow> draft" where
  "userText c = (aiText c)\<lparr>d_type := User\<rparr>"

definition stamped :: "env \<Rightarrow> session \<Rightarrow> draft \<Rightarrow> ConversationMessage" where
  "stamped env s d =
     \<lparr>msg_id = numberText (dateNow env (ticks s)) @ randomSuffix env (ticks s),
      msg_type = d_type d, content = d_content d,
      timestamp = Date (dateNow env (Suc (ticks s))), msg_action = d_action d,
      msg_requiresConfirmation = d_requiresConfirmation d, showUpload = d_showUpload d,
      msg_uploadedImage = d_uploadedImage d\<rparr>"

definition addMessage :: "env \<Rightarrow> draft \<Rightarrow> session \<Rightarrow> session" where
  "addMessage env d s =
     s\<lparr>messages := messages s @ [stamped env s d], ticks := Suc (Suc (ticks s))\<rparr>"

definition setProcessing :: "bool \<Rightarrow> session \<Rightarrow> session" where
  "setProcessing b s = s\<lparr>isProcessing := b\<rparr>"

text \<open>
  \<^verbatim>\<open>setPendingAction\<close> as its three callers use it: the action, the text of a clock
  reading (\<^verbatim>\<open>Date.now().toString()\<close>) as message identifier, and the
  awaiting-confirmation flag set.
\<close>

definition setPendingAction :: "env \<Rightarrow> jsval \<Rightarrow> session \<Rightarrow> session" where
  "setPendingAction env act s =
     s\<lparr>pendingAction :=
         Some \<lparr>pa_action = act, messageId = numberText (dateNow env (ticks s)),
               isWaitingForConfirmation = True\<rparr>,
       ticks := Suc (ticks s)\<rparr>"

definition rejectAction :: "session \<Rightarrow> session" where
  "rejectAction s = s\<lparr>pendingAction := None\<rparr>"

definition logEvent :: "event \<Rightarrow> session \<Rightarrow> session" where
  "logEvent e s = s\<lparr>trace := trace s @ [e]\<rparr>"

section \<open>ActionExecutor\<close>

text \<open>The message of a thrown error; for the engine's own errors the class name stands
  for the engine's text.\<close>

fun message :: "js_error \<Rightarrow> string" where
  "message (Error m) = m"
| "message TypeError = ''TypeError''"
| "message SyntaxError = ''SyntaxError''"
| "message RangeError = ''RangeError''"

text \<open>A string or \<^verbatim>\<open>undefined\<close> inside a template literal.\<close>

definition shown :: "string option \<Rightarrow> string" where
  "shown v = (case v of None \<Rightarrow> ''undefined'' | Some s \<Rightarrow> s)"

definition present :: "string option \<Rightarrow> bool" where
  "present v = (case v of None \<Rightarrow> False | Some s \<Rightarrow> s \<noteq> [])"

text \<open>
  The part of \<^verbatim>\<open>confirmAction\<close>'s \<^verbatim>\<open>try\<close> block that can throw: the wallet check, the
  key decryption and the dispatch on the action kind. Each submission call is recorded
  in the trace. The state is returned beside the outcome, as the \<^verbatim>\<open>catch\<close> block sees
  the state the \<^verbatim>\<open>try\<close> block left.
\<close>

definition dispatch :: "env \<Rightarrow> PendingAction \<Rightarrow> session \<Rightarrow> (js_error + TransactionResult) \<times> session" where
  "dispatch env pa s =
     (case wallet env of
        None \<Rightarrow> (Inl (Error ''Wallet not connected''), s)
      | Some w \<Rightarrow>
          if privateKey w = [] then (Inl (Error ''Wallet not connected''), s)
          else
            (case decryptPrivateKey env (privateKey w) of
               Inl e \<Rightarrow> (Inl e, s)
             | Inr key \<Rightarrow>
                 (case get_prop (pa_action pa) ''action'' of
                    Inl e \<Rightarrow> (Inl e, s)
                  | Inr kind \<Rightarrow>
                      (case get_prop (pa_action pa) ''details'' of
                         Inl e \<Rightarrow> (Inl e, s)
                       | Inr details \<Rightarrow>
                           if kind = JStr ''create_token'' then
                             (createToken env details key,
                              logEvent (Submission ''create_token'' details) s)
                           else if kind = JStr ''mint_nft'' then
                             (mintNFT env details (address w) key,
                              logEvent (Submission ''mint_nft'' details) s)
                           else if kind = JStr ''send_transaction'' then
                             (sendTransaction env details key,
                              logEvent (Submission ''send_transaction'' details) s)
                           else
                             (Inl (Error (''Unsupported action: '' @
                                (case kind of JStr k \<Rightarrow> k | _ \<Rightarrow> stringOf env kind))), s)))))"

definition successContent :: "TransactionResult \<Rightarrow> string" where
  "successContent r =
     ''(check) **Transaction Successful!**\<newline>\<newline>'' @
     ''(link) **Transaction Hash**: `'' @ shown (hash r) @ ''`\<newline>'' @
     (if present (contractAddress r)
      then ''(page) **Contract Address**: `'' @ shown (contractAddress r) @ ''`\<newline>'' else []) @
     (if present (tokenId r)
      then ''(art) **Token ID**: `'' @ shown (tokenId r) @ ''`\<newline>'' else []) @
     (if present (explorerUrl r)
      then ''\<newline>[View on Explorer]('' @ shown (explorerUrl r) @ '')'' else [])"

definition failureContent :: "string \<Rightarrow> string" where
  "failureContent why = ''(x) **Transaction Failed**\<newline>\<newline>'' @ why"

text \<open>The final \<^verbatim>\<open>set\<close> of both the \<^verbatim>\<open>try\<close> and the \<^verbatim>\<open>catch\<close> block.\<close>

definition finishAction :: "env \<Rightarrow> string \<Rightarrow> session \<Rightarrow> session" where
  "finishAction env c s =
     (addMessage env (aiText c) s)\<lparr>pendingAction := None, isProcessing := False\<rparr>"

definition confirmAction :: "env \<Rightarrow> session \<Rightarrow> session" where
  "confirmAction env s =
     (case pendingAction s of
        None \<Rightarrow> s
      | Some pa \<Rightarrow>
          (case dispatch env pa (s\<lparr>isProcessing := True\<rparr>) of
             (Inr result, s') \<Rightarrow>
               if success result then finishAction env (successContent result) s'
               else finishAction env (failureContent (shown (error result))) s'
           | (Inl e, s') \<Rightarrow>
               finishAction env
                 (failureContent (if message e \<noteq> [] then message e else ''Unknown error occurred'')) s'))"

section \<open>ConfirmationGate and UploadCoordinator\<close>

definition executionFailedText :: string where
  "executionFailedText =
     ''(x) **Execution Failed**\<newline>\<newline>An error occurred while executing the blockchain transaction. Please try again.''"

definition cancelledText :: string where
  "cancelledText =
     ''(x) **Action Cancelled**\<newline>\<newline>No problem! The action has been cancelled. Is there something else I can help you with?''"

definition replyYesNoText :: string where
  \<open>replyYesNoText =
     ''I didn't understand your response. Please reply with **"Yes"** to confirm or **"No"** to cancel the action.''\<close>

text \<open>
  \<^verbatim>\<open>handleConfirmationResponse\<close>. \<open>confirmAction\<close> absorbs every exception of the
  execution itself, so the handler's own \<^verbatim>\<open>catch\<close> is never entered; its \<^verbatim>\<open>finally\<close>
  clears the processing flag. The invocation of the executor is recorded in the trace.
\<close>

definition handleConfirmationResponse :: "env \<Rightarrow> string \<Rightarrow> session \<Rightarrow> session" where
  "handleConfirmationResponse env input s =
     (let normalizedInput = trim (toLowerCase input) in
      if normalizedInput \<in> set [''yes'', ''y'', ''confirm'', ''proceed'', ''ok'', ''sure''] then
        setProcessing False (confirmAction env (logEvent ExecutorCall (setProcessing True s)))
      else if normalizedInput \<in> set [''no'', ''n'', ''cancel'', ''abort'', ''stop''] then
        addMessage env (aiText cancelledText) (rejectAction s)
      else addMessage env (aiText replyYesNoText) s)"

definition placeholderDescription :: string where
  "placeholderDescription = ''NFT created with opBNB AI Assistant''"

text \<open>The \<^verbatim>\<open>mint_nft\<close> action both upload paths build.\<close>

definition nftAction :: "jsval \<Rightarrow> jsval \<Rightarrow> string \<Rightarrow> jsval" where
  "nftAction name description url =
     JObj [(''action'', JStr ''mint_nft''), (''confidence'', JNum (95 / 100)),
           (''details'', JObj [(''name'', name), (''description'', description),
                               (''imageUrl'', JStr url), (''attributes'', JArr [] [])]),
           (''missingFields'', JArr [] []), (''isComplete'', JBool True)]"

definition uploadedText :: "string \<Rightarrow> string \<Rightarrow> string" where
  \<open>uploadedText fileName confirmationMessage =
     ''(party) **Image uploaded successfully to BNB Greenfield!**\<newline>\<newline>Your image "'' @ fileName @
     ''" has been stored on the decentralized network.\<newline>\<newline>'' @ confirmationMessage\<close>

definition uploadedNoConfirmationText :: "string \<Rightarrow> string" where
  \<open>uploadedNoConfirmationText fileName =
     ''(party) **Image uploaded successfully!** \<newline>\<newline>Your image "'' @ fileName @
     ''" has been stored on BNB Greenfield. There was an error generating the confirmation. Please try again.''\<close>

definition askDetailsText :: string where
  \<open>askDetailsText =
     ''(party) **Image uploaded successfully to BNB Greenfield!**\<newline>\<newline>'' @
     ''Your image has been stored on the decentralized network. Now I need a few more details to mint your NFT:\<newline>\<newline>'' @
     ''(memo) **Please provide:**\<newline>1. **NFT Name** - What should your NFT be called?\<newline>'' @
     ''2. **Description** - Tell me about your NFT (optional)\<newline>\<newline>'' @
     ''You can provide both in one message like: "Name: My Art, Description: Beautiful digital artwork"''\<close>

definition withImage :: "string \<times> string \<Rightarrow> draft \<Rightarrow> draft" where
  "withImage img d = d\<lparr>d_uploadedImage := Some img\<rparr>"

definition handleUploadComplete :: "env \<Rightarrow> string \<Rightarrow> string \<Rightarrow> session \<Rightarrow> session" where
  "handleUploadComplete env url fileName s0 =
     (let s = s0\<lparr>uploadedImage := Some (url, fileName)\<rparr>;
          askForDetails =
            addMessage env (withImage (url, fileName) (aiText askDetailsText))
              (s\<lparr>isWaitingForNFTDetails := True\<rparr>)
      in case pendingNFTDetails s of
           None \<Rightarrow> askForDetails
         | Some (pendingName, pendingDescription) \<Rightarrow>
             if truthy pendingName \<or> truthy pendingDescription then
               (let name = (if truthy pendingName then pendingName else JStr ''Untitled NFT'');
                    description = (if truthy pendingDescription then pendingDescription
                                   else JStr placeholderDescription);
                    act = nftAction name description url
                in case generateConfirmationMessage env act of
                     Inr confirmationMessage \<Rightarrow>
                       (setPendingAction env act
                          (addMessage env
                             (withImage (url, fileName) (aiText (uploadedText fileName confirmationMessage)))
                             s))\<lparr>pendingNFTDetails := None\<rparr>
                   | Inl e \<Rightarrow>
                       addMessage env
                         (withImage (url, fileName) (aiText (uploadedNoConfirmationText fileName))) s)
             else askForDetails)"

text \<open>\<^verbatim>\<open>/called\s+([^,\n]+?)(?:\s+description\s+(.+))?$/i\<close>\<close>

definition calledPattern :: regex where
  "calledPattern =
     \<lparr>nodes = [Lit ''called'', Plus Space, GroupOpen 1, PlusLazy (NoneOf '',\<newline>''), GroupClose 1,
               Opt [Plus Space, Lit ''description'', Plus Space, GroupOpen 2, Plus Dot, GroupClose 2],
               EndOfInput],
      ignoreCase = True\<rparr>"

text \<open>\<^verbatim>\<open>/name:\s*([^,\n]+)/i\<close>\<close>

definition namePattern :: regex where
  "namePattern =
     \<lparr>nodes = [Lit ''name:'', Star Space, GroupOpen 1, Plus (NoneOf '',\<newline>''), GroupClose 1],
      ignoreCase = True\<rparr>"

text \<open>\<^verbatim>\<open>/description:\s*([^,\n]+)/i\<close>\<close>

definition descriptionPattern :: regex where
  "descriptionPattern =
     \<lparr>nodes = [Lit ''description:'', Star Space, GroupOpen 1, Plus (NoneOf '',\<newline>''), GroupClose 1],
      ignoreCase = True\<rparr>"

definition needNameToProceedText :: string where
  \<open>needNameToProceedText =
     ''I need at least a name for your NFT. Please tell me what to call it, like: "Name it Digital Art"''\<close>

definition whatNameText :: string where
  \<open>whatNameText = ''What would you like to name your NFT? For example: "Call it My Artwork"''\<close>

definition needNameText :: string where
  \<open>needNameText =
     ''I need a name for your NFT. Please say something like: "Name it Hormaz" or "Call it Digital Art"''\<close>

definition detailsErrorText :: string where
  "detailsErrorText = ''Error processing NFT details. Please try again.''"

text \<open>\<^verbatim>\<open>m?.[n]?.trim() || ''\<close> for a match result \<open>m\<close>.\<close>

definition trimmedGroup :: "string \<Rightarrow> (nat \<times> nat \<times> captures) option \<Rightarrow> nat \<Rightarrow> string" where
  "trimmedGroup w m n =
     (case m of
        None \<Rightarrow> []
      | Some mm \<Rightarrow> (case group w mm n of None \<Rightarrow> [] | Some g \<Rightarrow> trim g))"

text \<open>
  The name and description \<^verbatim>\<open>handleNFTDetailsAfterUpload\<close> reads from the reply, or
  the re-prompt its two early returns send: the result of the \<^verbatim>\<open>if\<close> cascade.
\<close>

datatype details = Parsed string string | Reprompt string

definition parseDetails :: "string \<Rightarrow> details" where
  "parseDetails userInput =
     (let lower = toLowerCase userInput in
      if str_includes lower ''create'' \<and> str_includes lower ''nft'' then
        (case str_match userInput calledPattern of
           None \<Rightarrow> Parsed [] []
         | Some calledMatch \<Rightarrow>
             (let name = trimmedGroup userInput (Some calledMatch) 1;
                  description = trimmedGroup userInput (Some calledMatch) 2
              in Parsed name (if toLowerCase description = ''nothing'' then [] else description)))
      else if str_match userInput namePattern \<noteq> None then
        Parsed (trimmedGroup userInput (str_match userInput namePattern) 1)
               (trimmedGroup userInput (str_match userInput descriptionPattern) 1)
      else if str_includes lower ''confirm'' \<or> str_includes lower ''mint'' \<or>
              str_includes lower ''proceed'' then
        Reprompt needNameToProceedText
      else if str_includes lower ''skip'' \<or> str_includes lower ''no description'' \<or>
              lower = ''no'' then
        Reprompt whatNameText
      else if length userInput < 50 \<and> \<not> str_includes userInput '','' then
        Parsed (trim userInput) []
      else Parsed [] [])"

definition handleNFTDetailsAfterUpload :: "env \<Rightarrow> string \<Rightarrow> session \<Rightarrow> session" where
  "handleNFTDetailsAfterUpload env userInput s =
     (case uploadedImage s of
        None \<Rightarrow> s
      | Some (url, fileName) \<Rightarrow>
          (case parseDetails userInput of
             Reprompt text \<Rightarrow> addMessage env (aiText text) s
           | Parsed name description \<Rightarrow>
               if name = [] then addMessage env (aiText needNameText) s
               else
                 (let act = nftAction (JStr name)
                              (JStr (if description \<noteq> [] then description
                                     else placeholderDescription)) url
                  in case generateConfirmationMessage env act of
                       Inr confirmationMessage \<Rightarrow>
                         (setPendingAction env act
                            (addMessage env (aiText confirmationMessage) s))
                           \<lparr>isWaitingForNFTDetails := False\<rparr>
                     | Inl e \<Rightarrow> addMessage env (aiText detailsErrorText) s)))"

section \<open>The chat turn\<close>

definition confirmationErrorText :: string where
  "confirmationErrorText = ''Error generating confirmation. Please try again.''"

text \<open>A property of a value already known to be truthy: the read cannot throw.\<close>

definition read_prop :: "jsval \<Rightarrow> string \<Rightarrow> jsval" where
  "read_prop v k = (case get_prop v k of Inr x \<Rightarrow> x | Inl e \<Rightarrow> JUndefined)"

text \<open>\<^verbatim>\<open>xs.slice(-n)\<close>\<close>

definition lastN :: "nat \<Rightarrow> 'a list \<Rightarrow> 'a list" where
  "lastN n xs = drop (length xs - n) xs"

text \<open>
  What \<^verbatim>\<open>handleSendMessage\<close> does with the IntentExtractor's result. Nothing in it
  throws but the confirmation composer, which has a \<^verbatim>\<open>try\<close> of its own.
\<close>

definition handleResult :: "env \<Rightarrow> ai_result \<Rightarrow> session \<Rightarrow> session" where
  "handleResult env result s =
     (let act = action result in
      if truthy act \<and> read_prop act ''action'' = JStr ''upload_nft'' \<and> truthy (read_prop act ''isComplete'') \<and>
         truthy (requiresConfirmation result) then
        addMessage env
          \<lparr>d_type = Assistant, d_content = response result, d_action = act,
           d_requiresConfirmation = JBool False, d_showUpload = Some True, d_uploadedImage = None\<rparr>
          (if truthy (read_prop act ''details'')
           then s\<lparr>pendingNFTDetails :=
                    Some (read_prop (read_prop act ''details'') ''name'', read_prop (read_prop act ''details'') ''description'')\<rparr>
           else s)
      else
        (let s1 = addMessage env
                    \<lparr>d_type = Assistant, d_content = response result,
                     d_action = (if truthy act then act else JUndefined),
                     d_requiresConfirmation = requiresConfirmation result,
                     d_showUpload = None, d_uploadedImage = None\<rparr> s
         in if truthy act \<and> truthy (read_prop act ''isComplete'') \<and> truthy (requiresConfirmation result) then
              (case generateConfirmationMessage env act of
                 Inr confirmationMessage \<Rightarrow>
                   setPendingAction env act (addMessage env (aiText confirmationMessage) s1)
               | Inl e \<Rightarrow> addMessage env (aiText confirmationErrorText) s1)
            else s1))"

text \<open>
  \<^verbatim>\<open>handleSendMessage\<close>. The pending action, the waiting flag and the context messages
  are those of the state the handler was created in, before the user's message is
  appended. The call of the oracle is recorded in the trace.
\<close>

definition handleSendMessage :: "env \<Rightarrow> session \<Rightarrow> session" where
  "handleSendMessage env s0 =
     (if trim (inputValue s0) = [] \<or> isProcessing s0 then s0
      else
        (let userInput = trim (inputValue s0);
             s = addMessage env (userText userInput) (s0\<lparr>inputValue := []\<rparr>)
         in if (case pendingAction s0 of None \<Rightarrow> False | Some pa \<Rightarrow> isWaitingForConfirmation pa) then
              handleConfirmationResponse env userInput s
            else if isWaitingForNFTDetails s0 then
              handleNFTDetailsAfterUpload env userInput s
            else
              setProcessing False
                (handleResult env
                   (processUserInput (caseMapping env) (parseJSON env) (askOracle env) userInput
                      (lastN 10 (messages s0)))
                   (logEvent (OracleCall userInput) (setProcessing True s)))))"

section \<open>Executions in flight\<close>






text \<open>
  The pending action that a message confirms: \<^verbatim>\<open>handleSendMessage\<close> accepts the message
  (it is not blank and nothing is processing), a pending action awaits confirmation, and
  the message is an affirmative word.
\<close>

definition confirming :: "session \<Rightarrow> PendingAction option" where
  "confirming s0 =
     (if trim (inputValue s0) = [] \<or> isProcessing s0 then None
      else
        (case pendingAction s0 of
           None \<Rightarrow> None
         | Some pa \<Rightarrow>
             if isWaitingForConfirmation pa \<and>
                trim (toLowerCase (trim (inputValue s0))) \<in>
                  set [''yes'', ''y'', ''confirm'', ''proceed'', ''ok'', ''sure'']
             then Some pa else None))"





section \<open>Observations on the trace\<close>








section \<open>Auxiliary definitions\<close>

text \<open>
  Objects seen through their property lists, the two halves of the \<^verbatim>\<open>send_transaction\<close>
  validation as functions of the details, and concrete oracle replies.
\<close>

fun is_object :: "jsval \<Rightarrow> bool" where
  "is_object (JObj ps) = True"
| "is_object (JArr xs ps) = True"
| "is_object v = False"

fun props :: "jsval \<Rightarrow> (string \<times> jsval) list" where
  "props (JObj ps) = ps"
| "props (JArr xs ps) = ps"
| "props v = []"

fun with_props :: "jsval \<Rightarrow> (string \<times> jsval) list \<Rightarrow> jsval" where
  "with_props (JObj ps) qs = JObj qs"
| "with_props (JArr xs ps) qs = JArr xs qs"
| "with_props v qs = v"

definition sendDetails :: "(string \<times> jsval) list \<Rightarrow> (string \<times> jsval) list" where
  "sendDetails ds = (if truthy (field ds ''token'') then ds else assign ds ''token'' (JStr ''BNB''))"

definition sendMissing :: "(string \<times> jsval) list \<Rightarrow> string list" where
  "sendMissing ds = (if truthy (field ds ''recipient'') then [] else [''recipient'']) @
                    (if truthy (field ds ''amount'') then [] else [''amount''])"

text \<open>A reply of the oracle, and the value \<^verbatim>\<open>JSON.parse\<close> gives its fenced block.\<close>

definition bobBlock :: string where
  \<open>bobBlock = ''{"action": {"action": "send_transaction", '' @
     ''"details": {"recipient": "bob", "amount": "1"}}, "requiresConfirmation": true}''\<close>

definition bobReply :: string where
  "bobReply = ''```json\<newline>'' @ bobBlock @ ''\<newline>```''"

definition bobJson :: jsval where
  "bobJson =
     JObj [(''action'', JObj [(''action'', JStr ''send_transaction''),
              (''details'', JObj [(''recipient'', JStr ''bob''), (''amount'', JStr ''1'')])]),
           (''requiresConfirmation'', JBool True)]"

definition bobParse :: "string \<Rightarrow> js_error + jsval" where
  "bobParse s = (if s = bobBlock then Inr bobJson else Inl SyntaxError)"

text \<open>
  The claim's ``syntactically valid chain address'', in the usual EVM form: \<^verbatim>\<open>0x\<close> and
  forty hexadecimal digits.
\<close>

definition isHexDigit :: "char \<Rightarrow> bool" where
  "isHexDigit c = (c \<in> set ''0123456789abcdefABCDEF'')"

definition isChainAddress :: "string \<Rightarrow> bool" where
  "isChainAddress s = (length s = 42 \<and> take 2 s = ''0x'' \<and> list_all isHexDigit (drop 2 s))"

text \<open>A concrete environment and concrete sessions. The demonstration mapping leaves a
  character outside ASCII as it is.\<close>

definition demoUpper :: "char \<Rightarrow> string" where
  "demoUpper c = [c]"

definition demoEnv :: env where
  "demoEnv =
     \<lparr>caseMapping = demoUpper,
      parseJSON = (\<lambda>s. Inl SyntaxError),
      askOracle = (\<lambda>i c. Inr ''How can I help?''),
      generateConfirmationMessage = (\<lambda>a. Inr ''**Should I proceed?** (Yes/No)''),
      wallet = Some \<lparr>address = ''0x00000000000000000000000000000000000000a1'',
                      privateKey = ''U2FsdGVkX1''\<rparr>,
      decryptPrivateKey = (\<lambda>k. Inr ''0xkey''),
      createToken = (\<lambda>d k. Inl (Error ''network error'')),
      mintNFT = (\<lambda>d a k.
        Inr \<lparr>success = True, hash = Some ''0xabc'', error = None, contractAddress = None,
             tokenId = Some ''7'', explorerUrl = None\<rparr>),
      sendTransaction = (\<lambda>d k.
        Inr \<lparr>success = False, hash = None, error = Some ''Insufficient balance'',
             contractAddress = None, tokenId = None, explorerUrl = None\<rparr>),
      dateNow = (\<lambda>n. 1700000000000 + int n),
      randomSuffix = (\<lambda>n. ''k3x9q2m1z''),
      stringOf = (\<lambda>v. ''undefined'')\<rparr>"


definition idle :: "string \<Rightarrow> session" where
  "idle typed =
     \<lparr>messages = [], pendingAction = None, isProcessing = False, inputValue = typed,
      uploadedImage = None, isWaitingForNFTDetails = False, pendingNFTDetails = None,
      ticks = 0, trace = []\<rparr>"


definition afterUpload :: "string \<Rightarrow> session" where
  "afterUpload typed =
     (idle typed)\<lparr>uploadedImage := Some (''https://gnfd.example/dawn.png'', ''dawn.png''),
                  isWaitingForNFTDetails := True\<rparr>"



section \<open>Properties\<close>

lemma field_assign: "field (assign ps k v) k' = (if k' = k then v else field ps k')"
  by (induction ps) (auto simp: field_def)

lemma get_prop_obj: "is_object v \<Longrightarrow> get_prop v k = Inr (field (props v) k)"
  by (cases v) simp_all

lemma set_prop_obj: "is_object v \<Longrightarrow> set_prop v k x = Inr (with_props v (assign (props v) k x))"
  by (cases v) simp_all

lemma set_prop_not_obj: "\<not> is_object v \<Longrightarrow> set_prop v k x = Inl TypeError"
  by (cases v) simp_all

lemma get_prop_not_obj: "\<not> is_object v \<Longrightarrow> get_prop v k = Inl TypeError \<or> get_prop v k = Inr JUndefined"
  by (cases v) simp_all

lemma props_with_props: "is_object v \<Longrightarrow> props (with_props v qs) = qs"
  by (cases v) simp_all

lemma is_object_with_props: "is_object (with_props v qs) = is_object v"
  by (cases v) simp_all

lemma is_object_truthy: "is_object v \<Longrightarrow> truthy v"
  by (cases v) simp_all

lemma is_object_not_nullish: "is_object v \<Longrightarrow> v \<noteq> JUndefined \<and> v \<noteq> JNull"
  by (cases v) simp_all

lemma with_props_twice: "with_props (with_props v ps) qs = with_props v qs"
  by (cases v) simp_all

lemma with_props_same: "with_props v (props v) = v"
  by (cases v) simp_all

lemma truthy_not_empty: "truthy t \<Longrightarrow> (t = JStr []) = False"
  by (cases t) auto

lemmas obj_simps = get_prop_obj set_prop_obj props_with_props is_object_with_props field_assign
  with_props_twice with_props_same truthy_not_empty

lemma truthy_empty: "(\<not> truthy t \<or> t = JStr []) = (\<not> truthy t)"
  by (cases t) auto

lemma validateSend_obj:
  assumes "is_object act" "is_object (field (props act) ''details'')"
  shows "validateSend act =
     Inr (with_props act
       (assign (assign (assign (props act) ''details''
            (with_props (field (props act) ''details'') (sendDetails (props (field (props act) ''details'')))))
          ''missingFields'' (JArr (map JStr (sendMissing (props (field (props act) ''details'')))) []))
          ''isComplete'' (JBool (sendMissing (props (field (props act) ''details'')) = []))))"
  using assms
  by (simp add: validateSend_def andThen_def Let_def obj_simps truthy_empty sendDetails_def sendMissing_def)

lemma validateSend_not_obj: "\<not> is_object act \<Longrightarrow> validateSend act = Inl TypeError"
  by (cases act) (simp_all add: validateSend_def andThen_def)

lemma validateSend_details_not_obj:
  "is_object act \<Longrightarrow> \<not> is_object (field (props act) ''details'') \<Longrightarrow> validateSend act = Inl TypeError"
  by (cases "field (props act) ''details''")
     (simp_all add: validateSend_def andThen_def get_prop_obj)

lemma andThen_InrE:
  assumes "andThen m f = Inr y"
  obtains x where "m = Inr x" "f x = Inr y"
  using assms by (cases m) (simp_all add: andThen_def)

lemma set_prop_InrD: "set_prop v k x = Inr v' \<Longrightarrow> is_object v \<and> v' = with_props v (assign (props v) k x)"
  by (cases v) auto

lemma get_prop_InrD: "get_prop v k = Inr x \<Longrightarrow> v \<noteq> JUndefined \<and> v \<noteq> JNull"
  by (cases v) auto

lemma actionKind_of_action:
  assumes "get_prop p ''action'' = Inr a" "get_prop a ''action'' = Inr k"
  shows "actionKind p = Inr k"
  using assms get_prop_InrD [OF assms(2)] by (simp add: actionKind_def andThen_def)

lemma splitWs_Nil: "splitWs [] = [[]]"
  by (subst splitWs.simps) simp

lemma generateTokenSymbol_fallback:
  "cleanName name = [] \<Longrightarrow> generateTokenSymbol up name = ''TKN''"
  by (simp add: generateTokenSymbol_def splitWs_Nil)

lemma toUpperCase_nonempty:
  "\<forall>c. up c \<noteq> [] \<Longrightarrow> s \<noteq> [] \<Longrightarrow> toUpperCase up s \<noteq> []"
  by (cases s) (simp_all add: toUpperCase_def)

lemma symbol_of_words_length:
  fixes up :: "char \<Rightarrow> string" and ws :: "string list"
  assumes ne: "\<forall>w\<in>set ws. w \<noteq> []"
  defines "res \<equiv>
     (if length ws = 0 then ''TKN''
      else if length ws = 1 then
        (if length (toUpperCase up (ws ! 0)) > 4 then substring0 (toUpperCase up (ws ! 0)) 4
         else toUpperCase up (ws ! 0))
      else if length ws = 2 then
        substring0 (substring0 (toUpperCase up (ws ! 0)) 2 @ substring0 (toUpperCase up (ws ! 1)) 2) 4
      else
        (if length (substring0 (concat (map (\<lambda>word. toUpperCase up (take 1 word)) ws)) 4) < 3
         then substring0 (concat (map (\<lambda>word. toUpperCase up (take 1 word)) ws)) 4 @ ''N''
         else substring0 (concat (map (\<lambda>word. toUpperCase up (take 1 word)) ws)) 4))"
  shows "length res \<le> 4 \<and> ((\<forall>c. up c \<noteq> []) \<longrightarrow> 1 \<le> length res)"
proof -
  consider "length ws = 0" | "length ws = 1" | "length ws = 2" | "length ws > 2" by linarith
  then show ?thesis
  proof cases
    case 1 then show ?thesis by (simp add: res_def)
  next
    case 2
    then have "ws ! 0 \<in> set ws" by simp
    with ne have w: "ws ! 0 \<noteq> []" by blast
    have "(\<forall>c. up c \<noteq> []) \<longrightarrow> 0 < length (toUpperCase up (ws ! 0))"
      using toUpperCase_nonempty [OF _ w, of up] by simp
    with 2 show ?thesis
      by (auto simp: res_def substring0_def Suc_le_eq)
  next
    case 3
    then have "ws ! 0 \<in> set ws" by simp
    with ne have w: "ws ! 0 \<noteq> []" by blast
    have "(\<forall>c. up c \<noteq> []) \<longrightarrow> 0 < length (toUpperCase up (ws ! 0))"
      using toUpperCase_nonempty [OF _ w, of up] by simp
    with 3 show ?thesis
      by (auto simp: res_def substring0_def Suc_le_eq min_def)
  next
    case 4
    then show ?thesis
      by (auto simp: res_def substring0_def)
  qed
qed

lemma generateTokenSymbol_length:
  "length (generateTokenSymbol up name) \<le> 4 \<and>
   ((\<forall>c. up c \<noteq> []) \<longrightarrow> 1 \<le> length (generateTokenSymbol up name))"
  unfolding generateTokenSymbol_def Let_def
  by (rule symbol_of_words_length) simp

lemma tokenDefaults_obj:
  assumes "map_of ds ''name'' = Some (JStr name)" "name \<noteq> []"
    "\<not> truthy (field ds ''symbol'')" "\<not> truthy (field ds ''totalSupply'')"
  shows "\<exists>ds'. tokenDefaults up (JObj ds) = Inr (JObj ds') \<and>
           field ds' ''symbol'' = JStr (generateTokenSymbol up name) \<and>
           field ds' ''totalSupply'' = JStr (generateSmartTotalSupply name) \<and>
           field ds' ''decimals'' = (if truthy (field ds ''decimals'') then field ds ''decimals'' else JStr ''18'') \<and>
           field ds' ''name'' = JStr name"
proof -
  from assms(1) have n: "field ds ''name'' = JStr name" by (simp add: field_def)
  show ?thesis
    using assms(2-4) n
    by (simp add: tokenDefaults_def andThen_def field_assign)
qed

lemma actionKind_InrD:
  assumes "actionKind p = Inr (JStr k)"
  shows "\<exists>a. get_prop p ''action'' = Inr a \<and> get_prop a ''action'' = Inr (JStr k)"
proof -
  from assms obtain a where a: "get_prop p ''action'' = Inr a"
     "(if a = JUndefined \<or> a = JNull then Inr JUndefined else get_prop a ''action'') = Inr (JStr k)"
    unfolding actionKind_def by (erule andThen_InrE)
  from a(2) have "get_prop a ''action'' = Inr (JStr k)" by (simp split: if_splits)
  with a(1) show ?thesis by blast
qed

lemma stepUploadNft_other:
  assumes "stepUploadNft p = Inr p'" "actionKind p \<noteq> Inr (JStr ''upload_nft'')"
  shows "p' = p"
proof -
  from assms(1) obtain kind where k: "actionKind p = Inr kind"
    "(if kind = JStr ''upload_nft'' then
         andThen (get_prop p ''action'') (\<lambda>act.
         andThen (set_prop act ''isComplete'' (JBool True)) (\<lambda>act'.
         andThen (set_prop p ''action'' act') (\<lambda>p.
         set_prop p ''requiresConfirmation'' (JBool True))))
       else Inr p) = Inr p'"
    unfolding stepUploadNft_def by (erule andThen_InrE)
  from k(1) assms(2) have "kind \<noteq> JStr ''upload_nft''" by simp
  with k(2) show ?thesis by simp
qed

lemma stepUploadNft_upload:
  assumes "stepUploadNft p = Inr p'" "actionKind p = Inr (JStr ''upload_nft'')"
  shows "\<exists>a'. get_prop p' ''action'' = Inr a' \<and> get_prop a' ''isComplete'' = Inr (JBool True) \<and>
           get_prop a' ''action'' = Inr (JStr ''upload_nft'')"
proof -
  from assms(2) obtain a where a: "get_prop p ''action'' = Inr a"
      "get_prop a ''action'' = Inr (JStr ''upload_nft'')"
    using actionKind_InrD by blast
  from assms have "andThen (set_prop a ''isComplete'' (JBool True)) (\<lambda>act'.
         andThen (set_prop p ''action'' act') (\<lambda>p.
         set_prop p ''requiresConfirmation'' (JBool True))) = Inr p'"
    by (simp add: stepUploadNft_def andThen_def a(1))
  then obtain a' where s1: "set_prop a ''isComplete'' (JBool True) = Inr a'"
    and c1: "andThen (set_prop p ''action'' a') (\<lambda>p. set_prop p ''requiresConfirmation'' (JBool True)) = Inr p'"
    by (rule andThen_InrE)
  from c1 obtain p1 where s2: "set_prop p ''action'' a' = Inr p1"
    and s3: "set_prop p1 ''requiresConfirmation'' (JBool True) = Inr p'"
    by (rule andThen_InrE)
  from set_prop_InrD [OF s1] have a': "is_object a" "a' = with_props a (assign (props a) ''isComplete'' (JBool True))"
    by blast+
  from set_prop_InrD [OF s2] have p1: "is_object p" "p1 = with_props p (assign (props p) ''action'' a')"
    by blast+
  from set_prop_InrD [OF s3] have p': "p' = with_props p1 (assign (props p1) ''requiresConfirmation'' (JBool True))"
    by blast
  have "get_prop p' ''action'' = Inr a'"
    using p1 p' by (simp add: obj_simps)
  moreover have "get_prop a' ''isComplete'' = Inr (JBool True)"
    using a' by (simp add: obj_simps)
  moreover have "get_prop a' ''action'' = Inr (JStr ''upload_nft'')"
    using a' a(2) by (simp add: obj_simps)
  ultimately show ?thesis by blast
qed

lemma stepSendTransaction_other:
  assumes "stepSendTransaction p = Inr p'" "actionKind p \<noteq> Inr (JStr ''send_transaction'')"
  shows "p' = p"
proof -
  from assms(1) obtain kind where k: "actionKind p = Inr kind"
    "(if kind = JStr ''send_transaction'' then
         andThen (get_prop p ''action'') (\<lambda>act.
         andThen (validateSend act) (\<lambda>act'.
         set_prop p ''action'' act'))
       else Inr p) = Inr p'"
    unfolding stepSendTransaction_def by (erule andThen_InrE)
  from k(1) assms(2) have "kind \<noteq> JStr ''send_transaction''" by simp
  with k(2) show ?thesis by simp
qed

lemma stepSendTransaction_send:
  assumes "stepSendTransaction p = Inr p'" "actionKind p = Inr (JStr ''send_transaction'')"
  shows "\<exists>a a'. get_prop p ''action'' = Inr a \<and> validateSend a = Inr a' \<and> get_prop p' ''action'' = Inr a'"
proof -
  from assms have "andThen (get_prop p ''action'') (\<lambda>act.
         andThen (validateSend act) (\<lambda>act'. set_prop p ''action'' act')) = Inr p'"
    by (simp add: stepSendTransaction_def andThen_def)
  then obtain a where s1: "get_prop p ''action'' = Inr a"
    and c1: "andThen (validateSend a) (\<lambda>act'. set_prop p ''action'' act') = Inr p'"
    by (rule andThen_InrE)
  from c1 obtain a' where s2: "validateSend a = Inr a'" and s3: "set_prop p ''action'' a' = Inr p'"
    by (rule andThen_InrE)
  from set_prop_InrD [OF s3] have "is_object p" "p' = with_props p (assign (props p) ''action'' a')"
    by blast+
  then have "get_prop p' ''action'' = Inr a'" by (simp add: obj_simps)
  with s1 s2 show ?thesis by blast
qed

lemma validateSend_InrD:
  assumes "validateSend act = Inr act'"
  shows "is_object act \<and> is_object (field (props act) ''details'')"
  using assms validateSend_not_obj [of act] validateSend_details_not_obj [of act]
  by (cases "is_object act"; cases "is_object (field (props act) ''details'')") simp_all

lemma validateSend_effect:
  assumes "validateSend act = Inr act'"
  shows "\<exists>d0 d t0 r0 a0.
           get_prop act ''details'' = Inr d0 \<and> get_prop d0 ''token'' = Inr t0 \<and>
           get_prop d0 ''recipient'' = Inr r0 \<and> get_prop d0 ''amount'' = Inr a0 \<and>
           get_prop act' ''details'' = Inr d \<and>
           get_prop d ''token'' = Inr (if truthy t0 then t0 else JStr ''BNB'') \<and>
           get_prop d ''recipient'' = Inr r0 \<and> get_prop d ''amount'' = Inr a0 \<and>
           get_prop act' ''missingFields'' =
             Inr (JArr (map JStr ((if truthy r0 then [] else [''recipient'']) @
                                  (if truthy a0 then [] else [''amount'']))) []) \<and>
           get_prop act' ''isComplete'' = Inr (JBool (truthy r0 \<and> truthy a0)) \<and>
           get_prop act' ''action'' = get_prop act ''action''"
proof -
  from validateSend_InrD [OF assms] have o: "is_object act" "is_object (field (props act) ''details'')"
    by blast+
  define d0 where "d0 = field (props act) ''details''"
  define d where "d = with_props d0 (sendDetails (props d0))"
  define t0 where "t0 = field (props d0) ''token''"
  define r0 where "r0 = field (props d0) ''recipient''"
  define a0 where "a0 = field (props d0) ''amount''"
  have od0: "is_object d0" using o(2) by (simp add: d0_def)
  have od: "is_object d" using od0 by (simp add: d_def is_object_with_props)
  have act': "act' = with_props act
       (assign (assign (assign (props act) ''details'' d)
          ''missingFields'' (JArr (map JStr (sendMissing (props d0))) []))
          ''isComplete'' (JBool (sendMissing (props d0) = [])))"
    using assms validateSend_obj [OF o] by (simp add: d_def d0_def)
  have pd: "props d = sendDetails (props d0)"
    using od0 by (simp add: d_def props_with_props)
  have i1: "get_prop act ''details'' = Inr d0"
    using o(1) by (simp add: get_prop_obj d0_def)
  have i2: "get_prop d0 ''token'' = Inr t0"
    using od0 by (simp add: get_prop_obj t0_def)
  have i3: "get_prop d0 ''recipient'' = Inr r0"
    using od0 by (simp add: get_prop_obj r0_def)
  have i4: "get_prop d0 ''amount'' = Inr a0"
    using od0 by (simp add: get_prop_obj a0_def)
  have 1: "get_prop act' ''details'' = Inr d"
    using o(1) by (simp add: act' obj_simps)
  have 2: "get_prop d ''token'' = Inr (if truthy t0 then t0 else JStr ''BNB'')"
    using od by (simp add: get_prop_obj pd sendDetails_def field_assign t0_def)
  have r: "get_prop d ''recipient'' = Inr r0"
    using od by (simp add: get_prop_obj pd sendDetails_def field_assign r0_def)
  have a: "get_prop d ''amount'' = Inr a0"
    using od by (simp add: get_prop_obj pd sendDetails_def field_assign a0_def)
  have 3: "get_prop act' ''missingFields'' =
             Inr (JArr (map JStr ((if truthy r0 then [] else [''recipient'']) @
                                  (if truthy a0 then [] else [''amount'']))) [])"
    using o(1) by (simp add: act' obj_simps sendMissing_def r0_def a0_def)
  have 4: "get_prop act' ''isComplete'' = Inr (JBool (truthy r0 \<and> truthy a0))"
    using o(1) by (simp add: act' obj_simps sendMissing_def r0_def a0_def)
  have 5: "get_prop act' ''action'' = get_prop act ''action''"
    using o(1) by (simp add: act' obj_simps)
  show ?thesis
    by (intro exI [of _ d0] exI [of _ d] exI [of _ t0] exI [of _ r0] exI [of _ a0] conjI
          i1 i2 i3 i4 1 2 r a 3 4 5)
qed

lemma stepCreateToken_other:
  assumes "stepCreateToken up p = Inr p'" "actionKind p \<noteq> Inr (JStr ''create_token'')"
  shows "p' = p"
proof -
  from assms(1) obtain kind where k: "actionKind p = Inr kind"
    "(if kind = JStr ''create_token'' then
         andThen (get_prop p ''action'') (\<lambda>act.
         andThen (get_prop act ''details'') (\<lambda>tokenDetails.
         andThen (tokenDefaults up tokenDetails) (\<lambda>tokenDetails'.
         andThen (set_prop act ''details'' tokenDetails') (\<lambda>act'.
         set_prop p ''action'' act'))))
       else Inr p) = Inr p'"
    unfolding stepCreateToken_def by (erule andThen_InrE)
  from k(1) assms(2) have "kind \<noteq> JStr ''create_token''" by simp
  with k(2) show ?thesis by simp
qed

lemma stepCreateToken_create:
  assumes "stepCreateToken up p = Inr p'" "actionKind p = Inr (JStr ''create_token'')"
  shows "actionKind p' = Inr (JStr ''create_token'')"
proof -
  from assms(2) obtain a where a: "get_prop p ''action'' = Inr a"
      "get_prop a ''action'' = Inr (JStr ''create_token'')"
    using actionKind_InrD by blast
  from assms have "andThen (get_prop a ''details'') (\<lambda>tokenDetails.
         andThen (tokenDefaults up tokenDetails) (\<lambda>tokenDetails'.
         andThen (set_prop a ''details'' tokenDetails') (\<lambda>act'.
         set_prop p ''action'' act'))) = Inr p'"
    by (simp add: stepCreateToken_def andThen_def a(1))
  then have "\<exists>td' a'. set_prop a ''details'' td' = Inr a' \<and> set_prop p ''action'' a' = Inr p'"
    by (elim andThen_InrE, intro exI conjI) assumption+
  then obtain td' a' where s: "set_prop a ''details'' td' = Inr a'" "set_prop p ''action'' a' = Inr p'"
    by blast
  from set_prop_InrD [OF s(1)] have a': "is_object a" "a' = with_props a (assign (props a) ''details'' td')"
    by blast+
  from set_prop_InrD [OF s(2)] have p': "is_object p" "p' = with_props p (assign (props p) ''action'' a')"
    by blast+
  have g1: "get_prop p' ''action'' = Inr a'"
    using p' by (simp add: obj_simps)
  have g2: "get_prop a' ''action'' = Inr (JStr ''create_token'')"
    using a' a(2) by (simp add: obj_simps)
  from actionKind_of_action [OF g1 g2] show ?thesis .
qed

lemma parseBody_steps:
  assumes "parseBody up JSON_parse aiResponse = Inr r" "action r \<noteq> JNull"
  shows "\<exists>m block parsedJson p1 p2 p3.
           str_match aiResponse jsonFence = Some m \<and> group aiResponse m 1 = Some block \<and>
           JSON_parse block = Inr parsedJson \<and> stepCreateToken up parsedJson = Inr p1 \<and>
           stepSendTransaction p1 = Inr p2 \<and> stepUploadNft p2 = Inr p3 \<and>
           get_prop p3 ''action'' = Inr (action r)"
proof (cases "str_match aiResponse jsonFence")
  case None
  with assms(1) have "r = plainReply aiResponse" by (simp add: parseBody_def)
  with assms(2) show ?thesis by (simp add: plainReply_def)
next
  case (Some m)
  show ?thesis
  proof (cases "group aiResponse m 1")
    case None
    with Some assms(1) show ?thesis by (simp add: parseBody_def andThen_def)
  next
    case block: (Some block)
    with Some assms(1) have "andThen (JSON_parse block)
      (\<lambda>parsedJson.
          andThen (stepCreateToken up parsedJson) (\<lambda>p1.
          andThen (stepSendTransaction p1) (\<lambda>p2.
          andThen (stepUploadNft p2) (\<lambda>p3.
          andThen (get_prop p3 ''response'') (\<lambda>r.
          andThen (get_prop p3 ''action'') (\<lambda>a.
          andThen (get_prop p3 ''requiresConfirmation'') (\<lambda>rc.
            Inr \<lparr>response = (if truthy r then r else JStr aiResponse),
                 action = (if truthy a then a else JNull),
                 requiresConfirmation = (if truthy rc then rc else JBool False)\<rparr>))))))) = Inr r"
      by (simp add: parseBody_def)
    then have "\<exists>parsedJson p1 p2 p3 rr a rc.
         JSON_parse block = Inr parsedJson \<and> stepCreateToken up parsedJson = Inr p1 \<and>
         stepSendTransaction p1 = Inr p2 \<and> stepUploadNft p2 = Inr p3 \<and>
         get_prop p3 ''action'' = Inr a \<and>
         Inr \<lparr>response = (if truthy rr then rr else JStr aiResponse),
                 action = (if truthy a then a else JNull),
                 requiresConfirmation = (if truthy rc then rc else JBool False)\<rparr> = (Inr r :: js_error + ai_result)"
      by (elim andThen_InrE, intro exI conjI) assumption+
    then obtain parsedJson p1 p2 p3 rr a rc where
      s: "JSON_parse block = Inr parsedJson" "stepCreateToken up parsedJson = Inr p1"
         "stepSendTransaction p1 = Inr p2" "stepUploadNft p2 = Inr p3"
         "get_prop p3 ''action'' = Inr a"
         "r = \<lparr>response = (if truthy rr then rr else JStr aiResponse),
                 action = (if truthy a then a else JNull),
                 requiresConfirmation = (if truthy rc then rc else JBool False)\<rparr>"
      by auto
    from s(6) have "action r = (if truthy a then a else JNull)" by simp
    with assms(2) have "action r = a" by (simp split: if_splits)
    with s(5) have g: "get_prop p3 ''action'' = Inr (action r)" by simp
    show ?thesis
      by (intro exI [of _ m] exI [of _ block] exI [of _ parsedJson] exI [of _ p1] exI [of _ p2]
            exI [of _ p3] conjI Some block s(1) s(2) s(3) s(4) g)
  qed
qed

lemma parseAIResponse_steps:
  assumes "get_prop (action (parseAIResponse up JSON_parse aiResponse)) k = Inr v"
  shows "\<exists>m block parsedJson p1 p2 p3.
           str_match aiResponse jsonFence = Some m \<and> group aiResponse m 1 = Some block \<and>
           JSON_parse block = Inr parsedJson \<and> stepCreateToken up parsedJson = Inr p1 \<and>
           stepSendTransaction p1 = Inr p2 \<and> stepUploadNft p2 = Inr p3 \<and>
           get_prop p3 ''action'' = Inr (action (parseAIResponse up JSON_parse aiResponse))"
proof (cases "parseBody up JSON_parse aiResponse")
  case (Inl e)
  with assms show ?thesis by (simp add: parseAIResponse_def plainReply_def)
next
  case (Inr r)
  then have r: "parseAIResponse up JSON_parse aiResponse = r" by (simp add: parseAIResponse_def)
  from assms r have "action r \<noteq> JNull" by auto
  from parseBody_steps [OF Inr this] r show ?thesis by simp
qed

lemma send_action_origin:
  assumes k: "get_prop (action (parseAIResponse up JSON_parse aiResponse)) ''action'' = Inr (JStr ''send_transaction'')"
  shows "\<exists>m block parsedJson a0.
           str_match aiResponse jsonFence = Some m \<and> group aiResponse m 1 = Some block \<and>
           JSON_parse block = Inr parsedJson \<and> get_prop parsedJson ''action'' = Inr a0 \<and>
           validateSend a0 = Inr (action (parseAIResponse up JSON_parse aiResponse))"
proof -
  define a where "a = action (parseAIResponse up JSON_parse aiResponse)"
  from parseAIResponse_steps [OF k]
  obtain m block parsedJson p1 p2 p3 where
    s: "str_match aiResponse jsonFence = Some m" "group aiResponse m 1 = Some block"
       "JSON_parse block = Inr parsedJson" "stepCreateToken up parsedJson = Inr p1"
       "stepSendTransaction p1 = Inr p2" "stepUploadNft p2 = Inr p3"
       "get_prop p3 ''action'' = Inr a"
    unfolding a_def by blast
  from k have ka: "get_prop a ''action'' = Inr (JStr ''send_transaction'')" by (simp add: a_def)
  have k3: "actionKind p3 = Inr (JStr ''send_transaction'')"
    using actionKind_of_action [OF s(7) ka] .
  have nu: "actionKind p2 \<noteq> Inr (JStr ''upload_nft'')"
  proof
    assume u: "actionKind p2 = Inr (JStr ''upload_nft'')"
    from stepUploadNft_upload [OF s(6) u] obtain a' where
      "get_prop p3 ''action'' = Inr a'" "get_prop a' ''action'' = Inr (JStr ''upload_nft'')" by blast
    with s(7) ka show False by simp
  qed
  from stepUploadNft_other [OF s(6) nu] have p3: "p3 = p2" .
  have ks: "actionKind p1 = Inr (JStr ''send_transaction'')"
  proof (rule ccontr)
    assume n: "actionKind p1 \<noteq> Inr (JStr ''send_transaction'')"
    from stepSendTransaction_other [OF s(5) n] have "p2 = p1" .
    with k3 p3 n show False by simp
  qed
  have nc: "actionKind parsedJson \<noteq> Inr (JStr ''create_token'')"
  proof
    assume c: "actionKind parsedJson = Inr (JStr ''create_token'')"
    from stepCreateToken_create [OF s(4) c] ks show False by simp
  qed
  from stepCreateToken_other [OF s(4) nc] have p1: "p1 = parsedJson" .
  from stepSendTransaction_send [OF s(5) ks] obtain a0 a' where
    v: "get_prop p1 ''action'' = Inr a0" "validateSend a0 = Inr a'" "get_prop p2 ''action'' = Inr a'" by blast
  from v(3) s(7) p3 have e: "a' = a" by simp
  from v(1) p1 have g: "get_prop parsedJson ''action'' = Inr a0" by simp
  from v(2) e have w: "validateSend a0 = Inr (action (parseAIResponse up JSON_parse aiResponse))"
    by (simp add: a_def)
  show ?thesis
    by (intro exI [of _ m] exI [of _ block] exI [of _ parsedJson] exI [of _ a0] conjI s(1) s(2) s(3) g w)
qed

lemma upload_action_complete:
  assumes k: "get_prop (action (parseAIResponse up JSON_parse aiResponse)) ''action'' = Inr (JStr ''upload_nft'')"
  shows "get_prop (action (parseAIResponse up JSON_parse aiResponse)) ''isComplete'' = Inr (JBool True)"
proof -
  define a where "a = action (parseAIResponse up JSON_parse aiResponse)"
  from parseAIResponse_steps [OF k]
  obtain p2 p3 where s: "stepUploadNft p2 = Inr p3" "get_prop p3 ''action'' = Inr a"
    unfolding a_def by blast
  from k have ka: "get_prop a ''action'' = Inr (JStr ''upload_nft'')" by (simp add: a_def)
  have k3: "actionKind p3 = Inr (JStr ''upload_nft'')"
    using actionKind_of_action [OF s(2) ka] .
  have ku: "actionKind p2 = Inr (JStr ''upload_nft'')"
  proof (rule ccontr)
    assume n: "actionKind p2 \<noteq> Inr (JStr ''upload_nft'')"
    from stepUploadNft_other [OF s(1) n] have "p3 = p2" .
    with k3 n show False by simp
  qed
  from stepUploadNft_upload [OF s(1) ku] obtain a' where
    "get_prop p3 ''action'' = Inr a'" "get_prop a' ''isComplete'' = Inr (JBool True)" by blast
  with s(2) show ?thesis by (simp add: a_def)
qed

lemma bobParsed:
  "parseAIResponse demoUpper bobParse bobReply =
     \<lparr>response = JStr bobReply,
      action = JObj [(''action'', JStr ''send_transaction''),
                     (''details'', JObj [(''recipient'', JStr ''bob''), (''amount'', JStr ''1''),
                                         (''token'', JStr ''BNB'')]),
                     (''missingFields'', JArr [] []), (''isComplete'', JBool True)],
      requiresConfirmation = JBool True\<rparr>"
  by code_simp











lemma addMessage_fields:
  "pendingAction (addMessage env d s) = pendingAction s"
  "isProcessing (addMessage env d s) = isProcessing s"
  "trace (addMessage env d s) = trace s"
  "uploadedImage (addMessage env d s) = uploadedImage s"
  "isWaitingForNFTDetails (addMessage env d s) = isWaitingForNFTDetails s"
  "pendingNFTDetails (addMessage env d s) = pendingNFTDetails s"
  "messages (addMessage env d s) = messages s @ [stamped env s d]"
  by (simp_all add: addMessage_def)

lemma stamped_aiText:
  "content (stamped env s (aiText c)) = JStr c"
  "msg_type (stamped env s (aiText c)) = Assistant"
  by (simp_all add: stamped_def aiText_def)


lemma setPendingAction_fields:
  "trace (setPendingAction env a s) = trace s"
  "messages (setPendingAction env a s) = messages s"
  "pendingAction (setPendingAction env a s) =
     Some \<lparr>pa_action = a, messageId = numberText (dateNow env (ticks s)),
           isWaitingForConfirmation = True\<rparr>"
  by (simp_all add: setPendingAction_def)









lemma handleSendMessage_ignored:
  "isProcessing s \<Longrightarrow> handleSendMessage env s = s"
  by (simp add: handleSendMessage_def)

lemma confirming_None_processing: "isProcessing s \<Longrightarrow> confirming s = None"
  by (simp add: confirming_def)















lemma parseDetails_Reprompt:
  "parseDetails u = Reprompt t \<Longrightarrow> t = needNameToProceedText \<or> t = whatNameText"
  by (simp add: parseDetails_def Let_def split: if_splits option.splits)

lemma list_ex_includes_simps:
  "list_ex (str_includes n) [] = False"
  "list_ex (str_includes n) (k # ks) = (str_includes n k \<or> list_ex (str_includes n) ks)"
  by simp_all

lemma generateSmartTotalSupply_cascade:
  fixes tokenName :: string
  defines "n \<equiv> toLowerCase tokenName"
  defines "in_gaming \<equiv> list_ex (str_includes n) [''game'', ''gaming'', ''play'', ''quest'', ''rpg'', ''nft'']"
  defines "in_meme \<equiv> list_ex (str_includes n) [''meme'', ''pepe'', ''doge'', ''shib'', ''moon'', ''rocket'']"
  defines "in_governance \<equiv> list_ex (str_includes n) [''govern'', ''vote'', ''dao'', ''council'', ''proposal'']"
  defines "in_utility \<equiv> list_ex (str_includes n) [''utility'', ''app'', ''platform'', ''service'', ''network'']"
  defines "in_stable \<equiv> list_ex (str_includes n) [''stable'', ''usd'', ''dollar'', ''peg'']"
  shows "(in_gaming \<longrightarrow> generateSmartTotalSupply tokenName = ''1000000000'') \<and>
         (\<not> in_gaming \<and> in_meme \<longrightarrow> generateSmartTotalSupply tokenName = ''1000000000000'') \<and>
         (\<not> in_gaming \<and> \<not> in_meme \<and> in_governance \<longrightarrow> generateSmartTotalSupply tokenName = ''10000000'') \<and>
         (\<not> in_gaming \<and> \<not> in_meme \<and> \<not> in_governance \<and> in_utility \<longrightarrow>
            generateSmartTotalSupply tokenName = ''100000000'') \<and>
         (\<not> in_gaming \<and> \<not> in_meme \<and> \<not> in_governance \<and> \<not> in_utility \<and> in_stable \<longrightarrow>
            generateSmartTotalSupply tokenName = ''1000000'') \<and>
         (\<not> in_gaming \<and> \<not> in_meme \<and> \<not> in_governance \<and> \<not> in_utility \<and> \<not> in_stable \<longrightarrow>
            generateSmartTotalSupply tokenName = ''1000000'')"
  unfolding n_def in_gaming_def in_meme_def in_governance_def in_utility_def in_stable_def
    generateSmartTotalSupply_def Let_def list_ex_includes_simps
  by (intro conjI impI) simp_all

lemma tokenDefaults_totalSupply:
  assumes "\<not> truthy (field ds ''totalSupply'')"
    and "field ds ''name'' = JStr name \<or> (\<not> truthy (field ds ''name'') \<and> name = [])"
  shows "\<exists>ds'. tokenDefaults up (JObj ds) = Inr (JObj ds') \<and>
           field ds' ''totalSupply'' = JStr (generateSmartTotalSupply name)"
  using assms
  by (cases "truthy (field ds ''decimals'')"; cases "truthy (field ds ''symbol'')";
      cases "truthy (field ds ''name'')")
     (auto simp: tokenDefaults_def andThen_def field_assign)

text \<open>
  C8, as amended. For every token-creation action whose details carry no total supply
  (none, or a falsy one), the parse boundary sets the total supply from the name (the
  empty text when the name is absent or falsy), and the supply is decided by the first
  category, in the order gaming/NFT, meme, governance, utility/platform, stablecoin, one
  of whose keywords occurs in the lowercased name: a gaming/NFT keyword gives
  1,000,000,000; otherwise a meme keyword gives 1,000,000,000,000; otherwise a governance
  keyword gives 10,000,000; otherwise a utility/platform keyword gives 100,000,000;
  otherwise a stablecoin keyword gives 1,000,000; and any other name gives 1,000,000.
  A name with keywords of two categories gets the supply of the earlier one.
\<close>

theorem defaulted_supply_categories:
  fixes up :: "char \<Rightarrow> string" and ds :: "(string \<times> jsval) list" and name :: string
  assumes "\<not> truthy (field ds ''totalSupply'')"
    and "field ds ''name'' = JStr name \<or> (\<not> truthy (field ds ''name'') \<and> name = [])"
  defines "n \<equiv> toLowerCase name"
  defines "in_gaming \<equiv> list_ex (str_includes n) [''game'', ''gaming'', ''play'', ''quest'', ''rpg'', ''nft'']"
  defines "in_meme \<equiv> list_ex (str_includes n) [''meme'', ''pepe'', ''doge'', ''shib'', ''moon'', ''rocket'']"
  defines "in_governance \<equiv> list_ex (str_includes n) [''govern'', ''vote'', ''dao'', ''council'', ''proposal'']"
  defines "in_utility \<equiv> list_ex (str_includes n) [''utility'', ''app'', ''platform'', ''service'', ''network'']"
  defines "in_stable \<equiv> list_ex (str_includes n) [''stable'', ''usd'', ''dollar'', ''peg'']"
  defines "supply \<equiv> generateSmartTotalSupply name"
  shows "(\<exists>ds'. tokenDefaults up (JObj ds) = Inr (JObj ds') \<and>
            field ds' ''totalSupply'' = JStr supply) \<and>
         (in_gaming \<longrightarrow> supply = ''1000000000'') \<and>
         (\<not> in_gaming \<and> in_meme \<longrightarrow> supply = ''1000000000000'') \<and>
         (\<not> in_gaming \<and> \<not> in_meme \<and> in_governance \<longrightarrow> supply = ''10000000'') \<and>
         (\<not> in_gaming \<and> \<not> in_meme \<and> \<not> in_governance \<and> in_utility \<longrightarrow> supply = ''100000000'') \<and>
         (\<not> in_gaming \<and> \<not> in_meme \<and> \<not> in_governance \<and> \<not> in_utility \<and> in_stable \<longrightarrow>
            supply = ''1000000'') \<and>
         (\<not> in_gaming \<and> \<not> in_meme \<and> \<not> in_governance \<and> \<not> in_utility \<and> \<not> in_stable \<longrightarrow>
            supply = ''1000000'')"
proof -
  have d: "\<exists>ds'. tokenDefaults up (JObj ds) = Inr (JObj ds') \<and> field ds' ''totalSupply'' = JStr supply"
    unfolding supply_def using assms(1,2) by (rule tokenDefaults_totalSupply)
  note c = generateSmartTotalSupply_cascade [of name]
  show ?thesis
    unfolding n_def in_gaming_def in_meme_def in_governance_def in_utility_def in_stable_def
      supply_def
    by (rule conjI [OF d [unfolded supply_def] c])
qed

theorem defaulted_supply_categories_witness:
  "\<not> truthy (field [(''name'', JStr ''Doge Rocket'')] ''totalSupply'') \<and>
   field [(''name'', JStr ''Doge Rocket'')] ''name'' = JStr ''Doge Rocket'' \<and>
   \<not> list_ex (str_includes (toLowerCase ''Doge Rocket''))
       [''game'', ''gaming'', ''play'', ''quest'', ''rpg'', ''nft''] \<and>
   list_ex (str_includes (toLowerCase ''Doge Rocket''))
     [''meme'', ''pepe'', ''doge'', ''shib'', ''moon'', ''rocket''] \<and>
   (\<exists>ds'. tokenDefaults demoUpper (JObj [(''name'', JStr ''Doge Rocket'')]) = Inr (JObj ds') \<and>
      field ds' ''totalSupply'' = JStr (generateSmartTotalSupply ''Doge Rocket'')) \<and>
   generateSmartTotalSupply ''Doge Rocket'' = ''1000000000000''"
proof -
  have h1: "\<not> truthy (field [(''name'', JStr ''Doge Rocket'')] ''totalSupply'')" by code_simp
  have h2: "field [(''name'', JStr ''Doge Rocket'')] ''name'' = JStr ''Doge Rocket''" by code_simp
  have h3: "\<not> list_ex (str_includes (toLowerCase ''Doge Rocket''))
       [''game'', ''gaming'', ''play'', ''quest'', ''rpg'', ''nft'']" by code_simp
  have h4: "list_ex (str_includes (toLowerCase ''Doge Rocket''))
     [''meme'', ''pepe'', ''doge'', ''shib'', ''moon'', ''rocket'']" by code_simp
  note t = defaulted_supply_categories [OF h1 disjI1 [OF h2], of demoUpper]
  note a = conjunct1 [OF t]
  note b = mp [OF conjunct1 [OF conjunct2 [OF conjunct2 [OF t]]] conjI [OF h3 h4]]
  show ?thesis by (intro conjI h1 h2 h3 h4 a b)
qed

theorem defaulted_supply_counterexample:
  "str_includes (toLowerCase ''MOONPLAY'') ''moon'' \<and>
   str_includes (toLowerCase ''MOONPLAY'') ''play'' \<and>
   tokenDefaults demoUpper (JObj [(''name'', JStr ''MOONPLAY'')]) =
     Inr (JObj [(''name'', JStr ''MOONPLAY''), (''decimals'', JStr ''18''),
                (''totalSupply'', JStr ''1000000000''), (''symbol'', JStr ''MOON'')]) \<and>
   generateSmartTotalSupply ''MOONPLAY'' \<noteq> ''1000000000000''"
  by code_simp

text \<open>
  C4. The IntentExtractor raises nothing across the turn boundary. A response with no
  fenced JSON block, a fenced block that \<^verbatim>\<open>JSON.parse\<close> rejects, and any other
  exception of the parsing body all give the whole raw response as the reply text, with
  no action and no confirmation requirement; an oracle call that throws gives the fixed
  apologetic reply, with no action and no confirmation requirement.
\<close>

theorem processUserInput_absorbs_failures:
  "(str_match text jsonFence = None \<longrightarrow>
      parseAIResponse up JSON_parse text =
        \<lparr>response = JStr text, action = JNull, requiresConfirmation = JBool False\<rparr>) \<and>
   (\<forall>m block e. str_match text jsonFence = Some m \<and> group text m 1 = Some block \<and>
        JSON_parse block = Inl e \<longrightarrow>
      parseAIResponse up JSON_parse text =
        \<lparr>response = JStr text, action = JNull, requiresConfirmation = JBool False\<rparr>) \<and>
   (\<forall>e. parseBody up JSON_parse text = Inl e \<longrightarrow>
      parseAIResponse up JSON_parse text =
        \<lparr>response = JStr text, action = JNull, requiresConfirmation = JBool False\<rparr>) \<and>
   (generateContent input ctx = Inr text \<longrightarrow>
      processUserInput up JSON_parse generateContent input ctx = parseAIResponse up JSON_parse text) \<and>
   (\<forall>e. generateContent input ctx = Inl e \<longrightarrow>
      processUserInput up JSON_parse generateContent input ctx =
        \<lparr>response = JStr ''I apologize, but I encountered an error processing your request. Please try again.'',
         action = JNull, requiresConfirmation = JBool False\<rparr>)"
  by (auto simp: parseAIResponse_def parseBody_def plainReply_def processUserInput_def
        apology_def andThen_def)

theorem processUserInput_absorbs_failures_witness:
  "str_match ''Sure, what should the token be called?'' jsonFence = None \<and>
   parseAIResponse demoUpper (\<lambda>s. Inl SyntaxError) ''Sure, what should the token be called?'' =
     \<lparr>response = JStr ''Sure, what should the token be called?'', action = JNull,
      requiresConfirmation = JBool False\<rparr> \<and>
   parseBody demoUpper (\<lambda>s. Inl SyntaxError) ''```json\<newline>{oops\<newline>```'' = Inl SyntaxError \<and>
   parseAIResponse demoUpper (\<lambda>s. Inl SyntaxError) ''```json\<newline>{oops\<newline>```'' =
     \<lparr>response = JStr ''```json\<newline>{oops\<newline>```'', action = JNull,
      requiresConfirmation = JBool False\<rparr> \<and>
   processUserInput demoUpper (\<lambda>s. Inl SyntaxError) (\<lambda>i c. Inl (Error ''quota exceeded'')) ''hi'' () =
     \<lparr>response = JStr ''I apologize, but I encountered an error processing your request. Please try again.'',
      action = JNull, requiresConfirmation = JBool False\<rparr>"
proof -
  have h1: "str_match ''Sure, what should the token be called?'' jsonFence = None"
    by code_simp
  have h2: "parseBody demoUpper (\<lambda>s. Inl SyntaxError) ''```json\<newline>{oops\<newline>```'' = Inl SyntaxError"
    by code_simp
  have h3: "(\<lambda>(i::string) (c::unit). Inl (Error ''quota exceeded'') :: js_error + string) ''hi'' ()
            = Inl (Error ''quota exceeded'')"
    by simp
  note t1 = processUserInput_absorbs_failures
    [of "''Sure, what should the token be called?''" demoUpper "\<lambda>s. Inl SyntaxError"
        "\<lambda>i c. Inl (Error ''quota exceeded'')" "''hi''" "()"]
  note t2 = processUserInput_absorbs_failures
    [of "''```json\<newline>{oops\<newline>```''" demoUpper "\<lambda>s. Inl SyntaxError"
        "\<lambda>i c. Inl (Error ''quota exceeded'')" "''hi''" "()"]
  from t1 h1 have a: "parseAIResponse demoUpper (\<lambda>s. Inl SyntaxError) ''Sure, what should the token be called?'' =
     \<lparr>response = JStr ''Sure, what should the token be called?'', action = JNull,
      requiresConfirmation = JBool False\<rparr>"
    by blast
  from t2 h2 have b: "parseAIResponse demoUpper (\<lambda>s. Inl SyntaxError) ''```json\<newline>{oops\<newline>```'' =
     \<lparr>response = JStr ''```json\<newline>{oops\<newline>```'', action = JNull,
      requiresConfirmation = JBool False\<rparr>"
    by blast
  from t1 h3 have c: "processUserInput demoUpper (\<lambda>s. Inl SyntaxError) (\<lambda>i c. Inl (Error ''quota exceeded'')) ''hi'' () =
     \<lparr>response = JStr ''I apologize, but I encountered an error processing your request. Please try again.'',
      action = JNull, requiresConfirmation = JBool False\<rparr>"
    by blast
  from h1 h2 a b c show ?thesis by blast
qed

text \<open>
  C3, as amended. For every \<^verbatim>\<open>send_transaction\<close> action that the parse boundary
  produces, the missing-fields list names exactly those of recipient and amount that are
  absent or falsy, and the completeness flag is true if and only if that list is empty,
  that is, if and only if recipient and amount are both present and truthy; neither the
  syntax of the address nor the value of the amount is examined. An \<^verbatim>\<open>upload_nft\<close>
  action is always complete.
\<close>

theorem parse_completeness:
  fixes up :: "char \<Rightarrow> string" and JSON_parse :: "string \<Rightarrow> js_error + jsval"
    and aiResponse :: string
  defines "a \<equiv> action (parseAIResponse up JSON_parse aiResponse)"
  shows "(get_prop a ''action'' = Inr (JStr ''send_transaction'') \<longrightarrow>
           (\<exists>d r0 a0. get_prop a ''details'' = Inr d \<and>
              get_prop d ''recipient'' = Inr r0 \<and> get_prop d ''amount'' = Inr a0 \<and>
              get_prop a ''missingFields'' =
                Inr (JArr (map JStr ((if truthy r0 then [] else [''recipient'']) @
                                     (if truthy a0 then [] else [''amount'']))) []) \<and>
              get_prop a ''isComplete'' = Inr (JBool (truthy r0 \<and> truthy a0)))) \<and>
         (get_prop a ''action'' = Inr (JStr ''upload_nft'') \<longrightarrow>
           get_prop a ''isComplete'' = Inr (JBool True))"
proof (intro conjI impI)
  assume k: "get_prop a ''action'' = Inr (JStr ''send_transaction'')"
  from send_action_origin [OF k [unfolded a_def]] obtain a0 where
    "validateSend a0 = Inr a" unfolding a_def by blast
  from validateSend_effect [OF this] obtain d r0 am0 where
    e: "get_prop a ''details'' = Inr d" "get_prop d ''recipient'' = Inr r0"
       "get_prop d ''amount'' = Inr am0"
       "get_prop a ''missingFields'' =
                Inr (JArr (map JStr ((if truthy r0 then [] else [''recipient'']) @
                                     (if truthy am0 then [] else [''amount'']))) [])"
       "get_prop a ''isComplete'' = Inr (JBool (truthy r0 \<and> truthy am0))"
    by blast
  show "\<exists>d r0 a0. get_prop a ''details'' = Inr d \<and>
              get_prop d ''recipient'' = Inr r0 \<and> get_prop d ''amount'' = Inr a0 \<and>
              get_prop a ''missingFields'' =
                Inr (JArr (map JStr ((if truthy r0 then [] else [''recipient'']) @
                                     (if truthy a0 then [] else [''amount'']))) []) \<and>
              get_prop a ''isComplete'' = Inr (JBool (truthy r0 \<and> truthy a0))"
    by (intro exI [of _ d] exI [of _ r0] exI [of _ am0] conjI e)
next
  assume k: "get_prop a ''action'' = Inr (JStr ''upload_nft'')"
  from upload_action_complete [OF k [unfolded a_def]]
  show "get_prop a ''isComplete'' = Inr (JBool True)" by (simp add: a_def)
qed

theorem parse_completeness_witness:
  "get_prop (action (parseAIResponse demoUpper bobParse bobReply)) ''action'' = Inr (JStr ''send_transaction'') \<and>
   (\<exists>d r0 a0. get_prop (action (parseAIResponse demoUpper bobParse bobReply)) ''details'' = Inr d \<and>
      get_prop d ''recipient'' = Inr r0 \<and> get_prop d ''amount'' = Inr a0 \<and>
      get_prop (action (parseAIResponse demoUpper bobParse bobReply)) ''missingFields'' =
        Inr (JArr (map JStr ((if truthy r0 then [] else [''recipient'']) @
                             (if truthy a0 then [] else [''amount'']))) []) \<and>
      get_prop (action (parseAIResponse demoUpper bobParse bobReply)) ''isComplete'' =
        Inr (JBool (truthy r0 \<and> truthy a0)))"
proof -
  have h: "get_prop (action (parseAIResponse demoUpper bobParse bobReply)) ''action'' = Inr (JStr ''send_transaction'')"
    unfolding bobParsed by code_simp
  from parse_completeness [of demoUpper bobParse bobReply] have
    "get_prop (action (parseAIResponse demoUpper bobParse bobReply)) ''action'' = Inr (JStr ''send_transaction'') \<longrightarrow>
     (\<exists>d r0 a0. get_prop (action (parseAIResponse demoUpper bobParse bobReply)) ''details'' = Inr d \<and>
      get_prop d ''recipient'' = Inr r0 \<and> get_prop d ''amount'' = Inr a0 \<and>
      get_prop (action (parseAIResponse demoUpper bobParse bobReply)) ''missingFields'' =
        Inr (JArr (map JStr ((if truthy r0 then [] else [''recipient'']) @
                             (if truthy a0 then [] else [''amount'']))) []) \<and>
      get_prop (action (parseAIResponse demoUpper bobParse bobReply)) ''isComplete'' =
        Inr (JBool (truthy r0 \<and> truthy a0)))"
    by (rule conjunct1)
  from this h have "\<exists>d r0 a0. get_prop (action (parseAIResponse demoUpper bobParse bobReply)) ''details'' = Inr d \<and>
      get_prop d ''recipient'' = Inr r0 \<and> get_prop d ''amount'' = Inr a0 \<and>
      get_prop (action (parseAIResponse demoUpper bobParse bobReply)) ''missingFields'' =
        Inr (JArr (map JStr ((if truthy r0 then [] else [''recipient'']) @
                             (if truthy a0 then [] else [''amount'']))) []) \<and>
      get_prop (action (parseAIResponse demoUpper bobParse bobReply)) ''isComplete'' =
        Inr (JBool (truthy r0 \<and> truthy a0))"
    by (rule mp)
  with h show ?thesis by (rule conjI)
qed

theorem parse_completeness_counterexample:
  "get_prop (action (parseAIResponse demoUpper bobParse bobReply)) ''action'' = Inr (JStr ''send_transaction'') \<and>
   get_prop (action (parseAIResponse demoUpper bobParse bobReply)) ''isComplete'' = Inr (JBool True) \<and>
   get_prop (action (parseAIResponse demoUpper bobParse bobReply)) ''missingFields'' = Inr (JArr [] []) \<and>
   get_prop (action (parseAIResponse demoUpper bobParse bobReply)) ''details'' =
     Inr (JObj [(''recipient'', JStr ''bob''), (''amount'', JStr ''1''), (''token'', JStr ''BNB'')]) \<and>
   \<not> isChainAddress ''bob''"
  unfolding bobParsed by code_simp

text \<open>
  C10. For every \<^verbatim>\<open>send_transaction\<close> action that the parse boundary produces, the
  action is the oracle's action after validation: a token that is absent, the empty
  string or otherwise falsy is set to \<^verbatim>\<open>BNB\<close>, and any other token is kept; the
  missing-fields list never names the token; and the completeness flag is decided by
  recipient and amount alone.
\<close>

theorem send_transaction_token_default:
  assumes "get_prop (action (parseAIResponse up JSON_parse aiResponse)) ''action'' =
             Inr (JStr ''send_transaction'')"
  shows "\<exists>m block parsedJson act d0 t0 r0 a0 d mf.
           str_match aiResponse jsonFence = Some m \<and> group aiResponse m 1 = Some block \<and>
           JSON_parse block = Inr parsedJson \<and> get_prop parsedJson ''action'' = Inr act \<and>
           get_prop act ''details'' = Inr d0 \<and> get_prop d0 ''token'' = Inr t0 \<and>
           get_prop d0 ''recipient'' = Inr r0 \<and> get_prop d0 ''amount'' = Inr a0 \<and>
           get_prop (action (parseAIResponse up JSON_parse aiResponse)) ''details'' = Inr d \<and>
           get_prop d ''token'' = Inr (if truthy t0 then t0 else JStr ''BNB'') \<and>
           (t0 = JUndefined \<or> t0 = JStr [] \<longrightarrow> get_prop d ''token'' = Inr (JStr ''BNB'')) \<and>
           get_prop (action (parseAIResponse up JSON_parse aiResponse)) ''missingFields'' =
             Inr (JArr (map JStr mf) []) \<and>
           ''token'' \<notin> set mf \<and>
           get_prop (action (parseAIResponse up JSON_parse aiResponse)) ''isComplete'' =
             Inr (JBool (truthy r0 \<and> truthy a0))"
proof -
  define a where "a = action (parseAIResponse up JSON_parse aiResponse)"
  from send_action_origin [OF assms] obtain m block parsedJson act where
    o: "str_match aiResponse jsonFence = Some m" "group aiResponse m 1 = Some block"
       "JSON_parse block = Inr parsedJson" "get_prop parsedJson ''action'' = Inr act"
       "validateSend act = Inr a"
    unfolding a_def by blast
  from validateSend_effect [OF o(5)] obtain d0 d t0 r0 a0 where
    e: "get_prop act ''details'' = Inr d0" "get_prop d0 ''token'' = Inr t0"
       "get_prop d0 ''recipient'' = Inr r0" "get_prop d0 ''amount'' = Inr a0"
       "get_prop a ''details'' = Inr d"
       "get_prop d ''token'' = Inr (if truthy t0 then t0 else JStr ''BNB'')"
       "get_prop a ''missingFields'' =
             Inr (JArr (map JStr ((if truthy r0 then [] else [''recipient'']) @
                                  (if truthy a0 then [] else [''amount'']))) [])"
       "get_prop a ''isComplete'' = Inr (JBool (truthy r0 \<and> truthy a0))"
    by blast
  define mf where "mf = (if truthy r0 then [] else [''recipient'']) @ (if truthy a0 then [] else [''amount''])"
  have t: "t0 = JUndefined \<or> t0 = JStr [] \<longrightarrow> get_prop d ''token'' = Inr (JStr ''BNB'')"
    using e(6) by auto
  have n: "''token'' \<notin> set mf" by (simp add: mf_def)
  from e(7) have m7: "get_prop a ''missingFields'' = Inr (JArr (map JStr mf) [])"
    by (simp only: mf_def)
  show ?thesis
    unfolding a_def [symmetric]
    by (intro exI [of _ m] exI [of _ block] exI [of _ parsedJson] exI [of _ act] exI [of _ d0]
          exI [of _ t0] exI [of _ r0] exI [of _ a0] exI [of _ d] exI [of _ mf] conjI
          o(1) o(2) o(3) o(4) e(1) e(2) e(3) e(4) e(5) e(6) t m7 n e(8))
qed

theorem send_transaction_token_default_witness:
  "get_prop (action (parseAIResponse demoUpper bobParse bobReply)) ''action'' = Inr (JStr ''send_transaction'') \<and>
   get_prop (action (parseAIResponse demoUpper bobParse bobReply)) ''details'' =
     Inr (JObj [(''recipient'', JStr ''bob''), (''amount'', JStr ''1''), (''token'', JStr ''BNB'')]) \<and>
   (\<exists>m block parsedJson act d0 t0 r0 a0 d mf.
           str_match bobReply jsonFence = Some m \<and> group bobReply m 1 = Some block \<and>
           bobParse block = Inr parsedJson \<and> get_prop parsedJson ''action'' = Inr act \<and>
           get_prop act ''details'' = Inr d0 \<and> get_prop d0 ''token'' = Inr t0 \<and>
           get_prop d0 ''recipient'' = Inr r0 \<and> get_prop d0 ''amount'' = Inr a0 \<and>
           get_prop (action (parseAIResponse demoUpper bobParse bobReply)) ''details'' = Inr d \<and>
           get_prop d ''token'' = Inr (if truthy t0 then t0 else JStr ''BNB'') \<and>
           (t0 = JUndefined \<or> t0 = JStr [] \<longrightarrow> get_prop d ''token'' = Inr (JStr ''BNB'')) \<and>
           get_prop (action (parseAIResponse demoUpper bobParse bobReply)) ''missingFields'' =
             Inr (JArr (map JStr mf) []) \<and>
           ''token'' \<notin> set mf \<and>
           get_prop (action (parseAIResponse demoUpper bobParse bobReply)) ''isComplete'' =
             Inr (JBool (truthy r0 \<and> truthy a0)))"
proof -
  have h: "get_prop (action (parseAIResponse demoUpper bobParse bobReply)) ''action'' = Inr (JStr ''send_transaction'')"
    unfolding bobParsed by code_simp
  have d: "get_prop (action (parseAIResponse demoUpper bobParse bobReply)) ''details'' =
     Inr (JObj [(''recipient'', JStr ''bob''), (''amount'', JStr ''1''), (''token'', JStr ''BNB'')])"
    unfolding bobParsed by code_simp
  from h d send_transaction_token_default [OF h] show ?thesis
    by (intro conjI)
qed

text \<open>
  C7, as amended. For every token-creation action whose details carry a non-empty name
  and no symbol and no total supply, the defaults are a function of the name and of the
  decimals the oracle supplied: the symbol is \<open>generateTokenSymbol\<close> of the name (so the
  same name always gives the same symbol), the total supply is
  \<open>generateSmartTotalSupply\<close> of the name, the decimals are the supplied ones when they
  are truthy and \<^verbatim>\<open>18\<close> otherwise; the symbol has at most four characters, and at least
  one (the platform's upper-case mapping gives no character the empty text); and a name
  that is empty once the generic words are stripped gives the symbol \<^verbatim>\<open>TKN\<close>.
\<close>

theorem tokenDefaults_from_name:
  assumes "map_of ds ''name'' = Some (JStr name)" "name \<noteq> []"
    "\<not> truthy (field ds ''symbol'')" "\<not> truthy (field ds ''totalSupply'')"
  shows "\<exists>ds'. tokenDefaults up (JObj ds) = Inr (JObj ds') \<and>
           field ds' ''name'' = JStr name \<and>
           field ds' ''symbol'' = JStr (generateTokenSymbol up name) \<and>
           field ds' ''totalSupply'' = JStr (generateSmartTotalSupply name) \<and>
           field ds' ''decimals'' =
             (if truthy (field ds ''decimals'') then field ds ''decimals'' else JStr ''18'') \<and>
           length (generateTokenSymbol up name) \<le> 4 \<and>
           ((\<forall>c. up c \<noteq> []) \<longrightarrow> 1 \<le> length (generateTokenSymbol up name)) \<and>
           (cleanName name = [] \<longrightarrow> generateTokenSymbol up name = ''TKN'')"
proof -
  from tokenDefaults_obj [OF assms] obtain ds' where
    d: "tokenDefaults up (JObj ds) = Inr (JObj ds')"
       "field ds' ''symbol'' = JStr (generateTokenSymbol up name)"
       "field ds' ''totalSupply'' = JStr (generateSmartTotalSupply name)"
       "field ds' ''decimals'' =
             (if truthy (field ds ''decimals'') then field ds ''decimals'' else JStr ''18'')"
       "field ds' ''name'' = JStr name"
    by blast
  have l2: "length (generateTokenSymbol up name) \<le> 4"
    and l1: "(\<forall>c. up c \<noteq> []) \<longrightarrow> 1 \<le> length (generateTokenSymbol up name)"
    using generateTokenSymbol_length [of up name] by blast+
  have f: "cleanName name = [] \<longrightarrow> generateTokenSymbol up name = ''TKN''"
    using generateTokenSymbol_fallback by blast
  show ?thesis
    by (intro exI [of _ ds'] conjI d(1) d(5) d(2) d(3) d(4) l2 l1 f)
qed

theorem tokenDefaults_from_name_witness:
  "map_of [(''name'', JStr ''Dragon Quest Token'')] ''name'' = Some (JStr ''Dragon Quest Token'') \<and>
   (\<forall>c. demoUpper c \<noteq> []) \<and>
   tokenDefaults demoUpper (JObj [(''name'', JStr ''Dragon Quest Token'')]) =
     Inr (JObj [(''name'', JStr ''Dragon Quest Token''), (''decimals'', JStr ''18''),
                (''totalSupply'', JStr ''1000000000''), (''symbol'', JStr ''DRQU'')]) \<and>
   cleanName ''Crypto Token'' = [] \<and>
   generateTokenSymbol demoUpper ''Crypto Token'' = ''TKN'' \<and>
   (\<exists>ds'. tokenDefaults demoUpper (JObj [(''name'', JStr ''Dragon Quest Token'')]) = Inr (JObj ds') \<and>
           field ds' ''name'' = JStr ''Dragon Quest Token'' \<and>
           field ds' ''symbol'' = JStr (generateTokenSymbol demoUpper ''Dragon Quest Token'') \<and>
           field ds' ''totalSupply'' = JStr (generateSmartTotalSupply ''Dragon Quest Token'') \<and>
           field ds' ''decimals'' =
             (if truthy (field [(''name'', JStr ''Dragon Quest Token'')] ''decimals'')
              then field [(''name'', JStr ''Dragon Quest Token'')] ''decimals'' else JStr ''18'') \<and>
           length (generateTokenSymbol demoUpper ''Dragon Quest Token'') \<le> 4 \<and>
           1 \<le> length (generateTokenSymbol demoUpper ''Dragon Quest Token''))"
proof -
  have h1: "map_of [(''name'', JStr ''Dragon Quest Token'')] ''name'' = Some (JStr ''Dragon Quest Token'')"
    by simp
  have h2: "''Dragon Quest Token'' \<noteq> []" by simp
  have h3: "\<not> truthy (field [(''name'', JStr ''Dragon Quest Token'')] ''symbol'')"
    by code_simp
  have h4: "\<not> truthy (field [(''name'', JStr ''Dragon Quest Token'')] ''totalSupply'')"
    by code_simp
  have h5: "\<forall>c. demoUpper c \<noteq> []" by (simp add: demoUpper_def)
  have h6: "''Crypto Token'' \<noteq> []" by simp
  have h7: "map_of [(''name'', JStr ''Crypto Token'')] ''name'' = Some (JStr ''Crypto Token'')"
    by simp
  have h8: "\<not> truthy (field [(''name'', JStr ''Crypto Token'')] ''symbol'')"
    by code_simp
  have h9: "\<not> truthy (field [(''name'', JStr ''Crypto Token'')] ''totalSupply'')"
    by code_simp
  have h10: "cleanName ''Crypto Token'' = []" by code_simp
  have v: "tokenDefaults demoUpper (JObj [(''name'', JStr ''Dragon Quest Token'')]) =
     Inr (JObj [(''name'', JStr ''Dragon Quest Token''), (''decimals'', JStr ''18''),
                (''totalSupply'', JStr ''1000000000''), (''symbol'', JStr ''DRQU'')])"
    by code_simp
  from tokenDefaults_from_name [OF h7 h6 h8 h9, of demoUpper] h10
  have k: "generateTokenSymbol demoUpper ''Crypto Token'' = ''TKN''" by blast
  from tokenDefaults_from_name [OF h1 h2 h3 h4, of demoUpper] h5
  have t: "\<exists>ds'. tokenDefaults demoUpper (JObj [(''name'', JStr ''Dragon Quest Token'')]) = Inr (JObj ds') \<and>
           field ds' ''name'' = JStr ''Dragon Quest Token'' \<and>
           field ds' ''symbol'' = JStr (generateTokenSymbol demoUpper ''Dragon Quest Token'') \<and>
           field ds' ''totalSupply'' = JStr (generateSmartTotalSupply ''Dragon Quest Token'') \<and>
           field ds' ''decimals'' =
             (if truthy (field [(''name'', JStr ''Dragon Quest Token'')] ''decimals'')
              then field [(''name'', JStr ''Dragon Quest Token'')] ''decimals'' else JStr ''18'') \<and>
           length (generateTokenSymbol demoUpper ''Dragon Quest Token'') \<le> 4 \<and>
           1 \<le> length (generateTokenSymbol demoUpper ''Dragon Quest Token'')"
    by blast
  from h1 h5 v h10 k t show ?thesis
    by (intro conjI)
qed

theorem tokenDefaults_short_name_counterexample:
  "tokenDefaults demoUpper (JObj [(''name'', JStr ''AB''), (''decimals'', JStr ''6'')]) =
     Inr (JObj [(''name'', JStr ''AB''), (''decimals'', JStr ''6''),
                (''totalSupply'', JStr ''1000000''), (''symbol'', JStr ''AB'')]) \<and>
   generateTokenSymbol demoUpper ''AB'' = ''AB'' \<and> length (generateTokenSymbol demoUpper ''AB'') = 2"
  by code_simp



text \<open>
  C5, as amended. On upload completion with no stored name and no stored description the
  coordinator asks for the details and creates no pending action. On every detail reply
  from which no name is read it appends one of its three requests for a name and creates
  no pending action, and a reply with a name gives a \<^verbatim>\<open>mint_nft\<close> action under exactly
  that name. But on upload completion with a stored description and no stored name the
  coordinator proceeds under the default name \<^verbatim>\<open>Untitled NFT\<close>.
\<close>

theorem upload_flow_name:
  fixes env :: env and s :: session and url fileName userInput :: string
  defines "c \<equiv> handleUploadComplete env url fileName s"
  defines "r \<equiv> handleNFTDetailsAfterUpload env userInput s"
  shows "(pendingNFTDetails s = None \<or>
          (\<exists>n d. pendingNFTDetails s = Some (n, d) \<and> \<not> truthy n \<and> \<not> truthy d) \<longrightarrow>
            pendingAction c = pendingAction s \<and> isWaitingForNFTDetails c \<and>
            content (last (messages c)) = JStr askDetailsText) \<and>
         (\<forall>n d m. pendingNFTDetails s = Some (n, d) \<and> \<not> truthy n \<and> truthy d \<and>
             generateConfirmationMessage env (nftAction (JStr ''Untitled NFT'') d url) = Inr m \<longrightarrow>
            map_option pa_action (pendingAction c) = Some (nftAction (JStr ''Untitled NFT'') d url)) \<and>
         (\<forall>img. uploadedImage s = Some img \<and>
             (case parseDetails userInput of Reprompt t \<Rightarrow> True | Parsed name d \<Rightarrow> name = []) \<longrightarrow>
            pendingAction r = pendingAction s \<and> msg_type (last (messages r)) = Assistant \<and>
            (content (last (messages r)) = JStr needNameToProceedText \<or>
             content (last (messages r)) = JStr whatNameText \<or>
             content (last (messages r)) = JStr needNameText)) \<and>
         (\<forall>u f name d m. uploadedImage s = Some (u, f) \<and> parseDetails userInput = Parsed name d \<and>
             name \<noteq> [] \<and>
             generateConfirmationMessage env
               (nftAction (JStr name) (JStr (if d \<noteq> [] then d else placeholderDescription)) u) = Inr m \<longrightarrow>
            map_option pa_action (pendingAction r) =
              Some (nftAction (JStr name) (JStr (if d \<noteq> [] then d else placeholderDescription)) u))"
proof -
  have p1: "pendingNFTDetails s = None \<or>
          (\<exists>n d. pendingNFTDetails s = Some (n, d) \<and> \<not> truthy n \<and> \<not> truthy d) \<longrightarrow>
            pendingAction c = pendingAction s \<and> isWaitingForNFTDetails c \<and>
            content (last (messages c)) = JStr askDetailsText"
  proof
    assume "pendingNFTDetails s = None \<or>
          (\<exists>n d. pendingNFTDetails s = Some (n, d) \<and> \<not> truthy n \<and> \<not> truthy d)"
    then have "c = addMessage env (withImage (url, fileName) (aiText askDetailsText))
                   (s\<lparr>uploadedImage := Some (url, fileName), isWaitingForNFTDetails := True\<rparr>)"
      by (auto simp: c_def handleUploadComplete_def Let_def)
    then show "pendingAction c = pendingAction s \<and> isWaitingForNFTDetails c \<and>
            content (last (messages c)) = JStr askDetailsText"
      by (simp add: addMessage_fields stamped_def withImage_def aiText_def)
  qed
  have p2: "\<forall>n d m. pendingNFTDetails s = Some (n, d) \<and> \<not> truthy n \<and> truthy d \<and>
             generateConfirmationMessage env (nftAction (JStr ''Untitled NFT'') d url) = Inr m \<longrightarrow>
            map_option pa_action (pendingAction c) = Some (nftAction (JStr ''Untitled NFT'') d url)"
    by (simp add: c_def handleUploadComplete_def Let_def setPendingAction_fields)
  have p3: "\<forall>img. uploadedImage s = Some img \<and>
             (case parseDetails userInput of Reprompt t \<Rightarrow> True | Parsed name d \<Rightarrow> name = []) \<longrightarrow>
            pendingAction r = pendingAction s \<and> msg_type (last (messages r)) = Assistant \<and>
            (content (last (messages r)) = JStr needNameToProceedText \<or>
             content (last (messages r)) = JStr whatNameText \<or>
             content (last (messages r)) = JStr needNameText)"
  proof (intro allI impI)
    fix img
    assume a: "uploadedImage s = Some img \<and>
             (case parseDetails userInput of Reprompt t \<Rightarrow> True | Parsed name d \<Rightarrow> name = [])"
    obtain u f where img: "img = (u, f)" by (cases img)
    show "pendingAction r = pendingAction s \<and> msg_type (last (messages r)) = Assistant \<and>
            (content (last (messages r)) = JStr needNameToProceedText \<or>
             content (last (messages r)) = JStr whatNameText \<or>
             content (last (messages r)) = JStr needNameText)"
    proof (cases "parseDetails userInput")
      case (Reprompt t)
      with a img have "r = addMessage env (aiText t) s"
        by (simp add: r_def handleNFTDetailsAfterUpload_def)
      with parseDetails_Reprompt [OF Reprompt] show ?thesis
        by (auto simp: addMessage_fields stamped_aiText)
    next
      case (Parsed name d)
      with a img have "r = addMessage env (aiText needNameText) s"
        by (simp add: r_def handleNFTDetailsAfterUpload_def)
      then show ?thesis by (simp add: addMessage_fields stamped_aiText)
    qed
  qed
  have p4: "\<forall>u f name d m. uploadedImage s = Some (u, f) \<and> parseDetails userInput = Parsed name d \<and>
             name \<noteq> [] \<and>
             generateConfirmationMessage env
               (nftAction (JStr name) (JStr (if d \<noteq> [] then d else placeholderDescription)) u) = Inr m \<longrightarrow>
            map_option pa_action (pendingAction r) =
              Some (nftAction (JStr name) (JStr (if d \<noteq> [] then d else placeholderDescription)) u)"
    by (simp add: r_def handleNFTDetailsAfterUpload_def Let_def setPendingAction_fields)
  show ?thesis by (intro conjI p1 p2 p3 p4)
qed




theorem upload_flow_name_witness:
  "pendingNFTDetails (idle []) = None \<and>
   pendingAction (handleUploadComplete demoEnv ''https://gnfd.example/dawn.png'' ''dawn.png'' (idle [])) =
     pendingAction (idle []) \<and>
   content (last (messages
     (handleUploadComplete demoEnv ''https://gnfd.example/dawn.png'' ''dawn.png'' (idle [])))) =
     JStr askDetailsText \<and>
   uploadedImage (afterUpload []) = Some (''https://gnfd.example/dawn.png'', ''dawn.png'') \<and>
   parseDetails ''just mint it'' = Reprompt needNameToProceedText \<and>
   pendingAction (handleNFTDetailsAfterUpload demoEnv ''just mint it'' (afterUpload [])) =
     pendingAction (afterUpload []) \<and>
   msg_type (last (messages (handleNFTDetailsAfterUpload demoEnv ''just mint it'' (afterUpload [])))) =
     Assistant"
proof -
  have h1: "pendingNFTDetails (idle []) = None" by code_simp
  have h2: "uploadedImage (afterUpload []) = Some (''https://gnfd.example/dawn.png'', ''dawn.png'')"
    by code_simp
  have h3: "parseDetails ''just mint it'' = Reprompt needNameToProceedText" by code_simp
  then have h4: "(case parseDetails ''just mint it'' of Reprompt t \<Rightarrow> True | Parsed name d \<Rightarrow> name = [])"
    by simp
  note t = upload_flow_name [where env = demoEnv and s = "idle []"
      and url = "''https://gnfd.example/dawn.png''" and fileName = "''dawn.png''"
      and userInput = "''just mint it''"]
  note u = upload_flow_name [where env = demoEnv and s = "afterUpload []"
      and url = "''https://gnfd.example/dawn.png''" and fileName = "''dawn.png''"
      and userInput = "''just mint it''"]
  note t1 = mp [OF conjunct1 [OF t] disjI1 [OF h1]]
  note u3 = mp [OF spec [OF conjunct1 [OF conjunct2 [OF conjunct2 [OF u]]]] conjI [OF h2 h4]]
  note a1 = conjunct1 [OF t1]
  note a3 = conjunct2 [OF conjunct2 [OF t1]]
  note b1 = conjunct1 [OF u3]
  note b2 = conjunct1 [OF conjunct2 [OF u3]]
  show ?thesis by (intro conjI h1 a1 a3 h2 h3 b1 b2)
qed

theorem upload_flow_name_counterexample:
  "pendingNFTDetails ((idle [])\<lparr>pendingNFTDetails := Some (JUndefined, JStr ''A sunset'')\<rparr>) =
     Some (JUndefined, JStr ''A sunset'') \<and>
   map_option pa_action (pendingAction
     (handleUploadComplete demoEnv ''https://gnfd.example/dawn.png'' ''dawn.png''
        ((idle [])\<lparr>pendingNFTDetails := Some (JUndefined, JStr ''A sunset'')\<rparr>))) =
     Some (nftAction (JStr ''Untitled NFT'') (JStr ''A sunset'') ''https://gnfd.example/dawn.png'') \<and>
   length (messages
     (handleUploadComplete demoEnv ''https://gnfd.example/dawn.png'' ''dawn.png''
        ((idle [])\<lparr>pendingNFTDetails := Some (JUndefined, JStr ''A sunset'')\<rparr>))) = 1 \<and>
   content (last (messages
     (handleUploadComplete demoEnv ''https://gnfd.example/dawn.png'' ''dawn.png''
        ((idle [])\<lparr>pendingNFTDetails := Some (JUndefined, JStr ''A sunset'')\<rparr>)))) =
     JStr (uploadedText ''dawn.png'' ''**Should I proceed?** (Yes/No)'')"
  by code_simp

text \<open>
  C6. After an upload with no stored details, the reply \<^verbatim>\<open>Call it Dawn\<close> is taken whole
  as the name: the synthesized \<^verbatim>\<open>mint_nft\<close> action is complete, carries the fixed
  placeholder description and awaits confirmation, but its name is \<^verbatim>\<open>Call it Dawn\<close>,
  not \<^verbatim>\<open>Dawn\<close>.
\<close>

theorem call_it_Dawn:
  "parseDetails ''Call it Dawn'' = Parsed ''Call it Dawn'' [] \<and>
   pendingAction (handleSendMessage demoEnv (afterUpload ''Call it Dawn'')) =
     Some \<lparr>pa_action =
             JObj [(''action'', JStr ''mint_nft''), (''confidence'', JNum (95 / 100)),
                   (''details'', JObj [(''name'', JStr ''Call it Dawn''),
                        (''description'', JStr ''NFT created with opBNB AI Assistant''),
                        (''imageUrl'', JStr ''https://gnfd.example/dawn.png''),
                        (''attributes'', JArr [] [])]),
                   (''missingFields'', JArr [] []), (''isComplete'', JBool True)],
           messageId = ''1700000000004'', isWaitingForConfirmation = True\<rparr> \<and>
   map msg_id (messages (handleSendMessage demoEnv (afterUpload ''Call it Dawn''))) =
     [''1700000000000k3x9q2m1z'', ''1700000000002k3x9q2m1z'']"
  by code_simp

end
